theory Spec2Isabelle
  imports Complex_Main
begin

section \<open>Values, tables and errors\<close>

text \<open>
  The splitting routines of \<^verbatim>\<open>splits.py\<close> work on pandas tables. A table is modelled
  by its column names and its rows; a row carries its index label and its cells. A cell
  that a row does not hold reads as \<open>NaN\<close>, as pandas fills it. Exceptions are values:
  the built-in classes the routines can meet, pandas' \<open>IndexingError\<close>, and
  \<open>UserDefined\<close> for any exception class a repository would declare itself.
\<close>

datatype py_error =
  AttributeError | KeyError | ValueError | TypeError | IndexingError | UserDefined string

datatype cell = Str string | Num int | NaN

type_synonym series = "(nat \<times> cell) list"

type_synonym mask = "(nat \<times> bool) list"

record frame =
  columns :: "string list"
  rows :: "(nat \<times> (string \<times> cell) list) list"

datatype line = Overlap string nat | LabelDist string nat nat | Text string

datatype file_content = IndexCsv "nat list" | FrameCsv frame

definition and_then :: "py_error + 'a \<Rightarrow> ('a \<Rightarrow> py_error + 'b) \<Rightarrow> py_error + 'b" where
  "and_then r f = (case r of Inl e \<Rightarrow> Inl e | Inr x \<Rightarrow> f x)"

definition cell_at :: "(string \<times> cell) list \<Rightarrow> string \<Rightarrow> cell" where
  "cell_at r c = (case map_of r c of Some v \<Rightarrow> v | None \<Rightarrow> NaN)"

definition column :: "frame \<Rightarrow> string \<Rightarrow> series" where
  "column df c = map (\<lambda>(l, r). (l, cell_at r c)) (rows df)"

text \<open>\<^verbatim>\<open>data.peptide\<close> raises AttributeError and \<^verbatim>\<open>data["peptide"]\<close> raises KeyError
  when the table has no such column.\<close>

definition getattr :: "frame \<Rightarrow> string \<Rightarrow> py_error + series" where
  "getattr df c = (if c \<in> set (columns df) then Inr (column df c) else Inl AttributeError)"

definition getitem :: "frame \<Rightarrow> string \<Rightarrow> py_error + series" where
  "getitem df c = (if c \<in> set (columns df) then Inr (column df c) else Inl KeyError)"

definition series_values :: "series \<Rightarrow> cell list" where
  "series_values s = map snd s"

definition series_index :: "series \<Rightarrow> nat list" where
  "series_index s = map fst s"

definition frame_index :: "frame \<Rightarrow> nat list" where
  "frame_index df = map fst (rows df)"

definition isin :: "series \<Rightarrow> cell set \<Rightarrow> mask" where
  "isin s vals = map (\<lambda>(l, v). (l, v \<in> vals)) s"

definition equals :: "series \<Rightarrow> cell \<Rightarrow> mask" where
  "equals s v = map (\<lambda>(l, w). (l, w = v)) s"

definition invert :: "mask \<Rightarrow> mask" where
  "invert m = map (\<lambda>(l, b). (l, \<not> b)) m"

text \<open>
  \<^verbatim>\<open>df[mask]\<close> and \<^verbatim>\<open>df.loc[mask]\<close> with a boolean Series: when the mask has the
  table's own index it is applied by position; otherwise pandas aligns it on the index
  labels and raises IndexingError when a label of the table has no entry in the mask.
  Index labels are unique in every table read from a file; what pandas does when the
  mask repeats a label depends on its version and is not modelled.
\<close>

definition loc_mask :: "frame \<Rightarrow> mask \<Rightarrow> py_error + frame" where
  "loc_mask df m =
     (if map fst m = frame_index df
      then Inr (df\<lparr>rows := map snd (filter fst (zip (map snd m) (rows df)))\<rparr>)
      else if \<not> set (frame_index df) \<subseteq> set (map fst m) then Inl IndexingError
      else Inr (df\<lparr>rows := filter (\<lambda>(l, r). map_of m l = Some True) (rows df)\<rparr>))"

text \<open>\<^verbatim>\<open>drop(labels)\<close> of a table or a Series removes every row that carries one
  of the labels and raises KeyError when a label is not in the index.\<close>

definition drop_list :: "(nat \<times> 'a) list \<Rightarrow> nat list \<Rightarrow> py_error + (nat \<times> 'a) list" where
  "drop_list xs labels =
     (if \<not> set labels \<subseteq> set (map fst xs) then Inl KeyError
      else Inr (filter (\<lambda>(l, r). l \<notin> set labels) xs))"

definition drop_labels :: "frame \<Rightarrow> nat list \<Rightarrow> py_error + frame" where
  "drop_labels df labels = and_then (drop_list (rows df) labels) (\<lambda>kept. Inr (df\<lparr>rows := kept\<rparr>))"

text \<open>\<^verbatim>\<open>a.append(b)\<close>: the rows of \<open>a\<close>, then the rows of \<open>b\<close>; the columns of both.\<close>

definition append_frames :: "frame \<Rightarrow> frame \<Rightarrow> frame" where
  "append_frames a b =
     \<lparr>columns = columns a @ filter (\<lambda>c. c \<notin> set (columns a)) (columns b),
      rows = rows a @ rows b\<rparr>"

text \<open>\<^verbatim>\<open>df.drop(columns=[c])\<close>: KeyError when the column is missing.\<close>

definition drop_column :: "frame \<Rightarrow> string \<Rightarrow> py_error + frame" where
  "drop_column df c =
     (if c \<notin> set (columns df) then Inl KeyError
      else Inr \<lparr>columns = filter (\<lambda>d. d \<noteq> c) (columns df),
                rows = map (\<lambda>(l, r). (l, filter (\<lambda>(d, v). d \<noteq> c) r)) (rows df)\<rparr>)"

section \<open>Random draws\<close>

text \<open>
  Every random draw of the routines comes down to a permutation of \<open>range(n)\<close>:
  \<^verbatim>\<open>train_test_split\<close> cuts one into a test and a train part, \<^verbatim>\<open>sample\<close> and
  \<^verbatim>\<open>random.sample\<close> take a prefix. A draw with \<^verbatim>\<open>random_state=seed\<close> uses a generator
  made from the seed for this one draw, so its permutation depends on the seed and on
  \<open>n\<close> only. A draw without a seed uses the process-wide generator, whose state is not
  an input of the routine: the \<open>k\<close>-th unseeded draw of a run may return any
  permutation. Fractions are exact rationals.
\<close>

datatype random_state = Seeded nat | Unseeded nat

record rng =
  seeded_permutation :: "nat \<Rightarrow> nat \<Rightarrow> nat list"
  unseeded_permutation :: "nat \<Rightarrow> nat \<Rightarrow> nat list"

definition permutation :: "rng \<Rightarrow> random_state \<Rightarrow> nat \<Rightarrow> nat list" where
  "permutation g rs n =
     (case rs of Seeded seed \<Rightarrow> seeded_permutation g seed n
               | Unseeded k \<Rightarrow> unseeded_permutation g k n)"

definition is_permutation :: "nat list \<Rightarrow> nat \<Rightarrow> bool" where
  "is_permutation p n \<longleftrightarrow> distinct p \<and> set p = {0..<n}"

definition valid_rng :: "rng \<Rightarrow> bool" where
  "valid_rng g \<longleftrightarrow>
     (\<forall>seed n. is_permutation (seeded_permutation g seed n) n) \<and>
     (\<forall>k n. is_permutation (unseeded_permutation g k n) n)"

definition take_locs :: "'a list \<Rightarrow> nat list \<Rightarrow> 'a list" where
  "take_locs xs locs = map (\<lambda>i. xs ! i) locs"

text \<open>Python's \<^verbatim>\<open>round\<close>: to the nearest integer, a tie to the even one.\<close>

definition py_round :: "rat \<Rightarrow> int" where
  "py_round x =
     (let f = \<lfloor>x\<rfloor>; d = x - of_int f
      in if d < 1 / 2 then f else if 1 / 2 < d then f + 1 else if even f then f else f + 1)"

text \<open>
  \<^verbatim>\<open>sample(n)\<close> without replacement raises ValueError for a negative \<open>n\<close> and for one
  larger than the population; \<^verbatim>\<open>sample(frac=f)\<close> raises it for \<open>f > 1\<close> and takes
  \<open>round(f * len)\<close> rows otherwise.
\<close>

definition sample_list :: "rng \<Rightarrow> random_state \<Rightarrow> 'a list \<Rightarrow> int \<Rightarrow> py_error + 'a list" where
  "sample_list g rs xs n =
     (if n < 0 \<or> int (length xs) < n then Inl ValueError
      else Inr (take_locs xs (take (nat n) (permutation g rs (length xs)))))"

definition sample_frac_list ::
  "rng \<Rightarrow> random_state \<Rightarrow> 'a list \<Rightarrow> rat \<Rightarrow> py_error + 'a list" where
  "sample_frac_list g rs xs fraction =
     (if 1 < fraction then Inl ValueError
      else sample_list g rs xs (py_round (fraction * of_nat (length xs))))"

definition sample :: "rng \<Rightarrow> random_state \<Rightarrow> frame \<Rightarrow> int \<Rightarrow> py_error + frame" where
  "sample g rs df n = and_then (sample_list g rs (rows df) n) (\<lambda>taken. Inr (df\<lparr>rows := taken\<rparr>))"

definition sample_frac :: "rng \<Rightarrow> random_state \<Rightarrow> frame \<Rightarrow> rat \<Rightarrow> py_error + frame" where
  "sample_frac g rs df fraction =
     and_then (sample_frac_list g rs (rows df) fraction) (\<lambda>taken. Inr (df\<lparr>rows := taken\<rparr>))"

text \<open>\<^verbatim>\<open>random.sample(population, k)\<close>: \<open>k\<close> distinct positions of the population,
  ValueError when \<open>k\<close> is larger than it.\<close>

definition random_sample :: "rng \<Rightarrow> random_state \<Rightarrow> 'a list \<Rightarrow> nat \<Rightarrow> py_error + 'a list" where
  "random_sample g rs population k =
     (if length population < k then Inl ValueError
      else Inr (take_locs population (take k (permutation g rs (length population)))))"

text \<open>
  \<^verbatim>\<open>train_test_split(X, y, test_size=f, random_state=seed)\<close> of scikit-learn: ValueError
  unless \<open>0 < f < 1\<close>; \<open>n_test = ceil(f * n)\<close>, \<open>n_train = n - n_test\<close>, ValueError when
  the train part would be empty; the test part is the first \<open>n_test\<close> positions of the
  permutation and the train part the next \<open>n_train\<close>.
\<close>

definition train_test_split ::
  "rng \<Rightarrow> 'a list \<Rightarrow> 'b list \<Rightarrow> rat \<Rightarrow> random_state
     \<Rightarrow> py_error + ('a list \<times> 'a list \<times> 'b list \<times> 'b list)" where
  "train_test_split g X y test_size rs =
     (let n_samples = length X in
      if length y \<noteq> n_samples then Inl ValueError
      else if test_size \<le> 0 \<or> 1 \<le> test_size then Inl ValueError
      else
        let n_test = nat \<lceil>test_size * of_nat n_samples\<rceil>;
            n_train = n_samples - n_test
        in if n_train = 0 then Inl ValueError
           else
             let perm = permutation g rs n_samples;
                 ind_test = take n_test perm;
                 ind_train = take n_train (drop n_test perm)
             in Inr (take_locs X ind_train, take_locs X ind_test,
                     take_locs y ind_train, take_locs y ind_test))"

section \<open>The helpers of splits.py\<close>

text \<open>\<^verbatim>\<open>remove_overlapping_peptides\<close>: the set difference, and the second set as given.\<close>

definition remove_overlapping_peptides :: "'a set \<Rightarrow> 'a set \<Rightarrow> 'a set \<times> 'a set" where
  "remove_overlapping_peptides peptides_1 peptides_2 =
     (let peptides_1_reduced = peptides_1 - peptides_2
      in (peptides_1_reduced, peptides_2))"

text \<open>\<^verbatim>\<open>validate_split\<close> prints the size of each pairwise intersection; the third
  pair of lines only when a test array is given. It has no other statement.\<close>

definition validate_split ::
  "cell list \<Rightarrow> cell list \<Rightarrow> cell list option \<Rightarrow> py_error + line list" where
  "validate_split X_train X_val X_test =
     Inr (Overlap ''train and val'' (card (set X_train \<inter> set X_val)) #
       (case X_test of
          None \<Rightarrow> []
        | Some X_test' \<Rightarrow>
            [Overlap ''train and test'' (card (set X_train \<inter> set X_test')),
             Overlap ''val and test'' (card (set X_val \<inter> set X_test'))]))"

text \<open>\<^verbatim>\<open>save_idx\<close> writes the index labels of each partition to a file of its own.\<close>

definition save_idx ::
  "string \<Rightarrow> frame \<Rightarrow> frame \<Rightarrow> frame option \<Rightarrow> (string \<times> file_content) list" where
  "save_idx out_dir X_train_data X_val_data X_test_data =
     [(out_dir @ ''X_train_idx.csv'', IndexCsv (frame_index X_train_data)),
      (out_dir @ ''X_val_idx.csv'', IndexCsv (frame_index X_val_data))] @
     (case X_test_data of
        None \<Rightarrow> []
      | Some t \<Rightarrow> [(out_dir @ ''X_test_idx.csv'', IndexCsv (frame_index t))])"

text \<open>\<^verbatim>\<open>Series.value_counts()\<close>: the distinct values other than NaN, each with the
  number of its occurrences. \<^verbatim>\<open>value_cts[0]\<close> looks a label up and raises KeyError
  when the label did not occur.\<close>

definition value_counts :: "series \<Rightarrow> (cell \<times> nat) list" where
  "value_counts s =
     (let vs = filter (\<lambda>v. v \<noteq> NaN) (series_values s)
      in map (\<lambda>v. (v, count_list vs v)) (remdups vs))"

definition count_of :: "(cell \<times> nat) list \<Rightarrow> cell \<Rightarrow> py_error + nat" where
  "count_of value_cts v = (case map_of value_cts v of None \<Rightarrow> Inl KeyError | Some n \<Rightarrow> Inr n)"

definition label_dist_summary :: "frame \<Rightarrow> string \<Rightarrow> string \<Rightarrow> py_error + line list" where
  "label_dist_summary data target_col dataset_name =
     and_then (getitem data target_col) (\<lambda>col.
       let value_cts = value_counts col in
       and_then (count_of value_cts (Num 0)) (\<lambda>negative.
       and_then (count_of value_cts (Num 1)) (\<lambda>positive.
         Inr [LabelDist dataset_name negative positive])))"

section \<open>random_splitting\<close>

text \<open>
  What a run of a splitting routine leaves behind: the partitions, the lines printed and
  the files written. A run that raises leaves the error only.

  Modelled from the spec: \<^verbatim>\<open>make_dir\<close> (mhciipresentation.utils, not among the
  sources) creates the output directory; it is taken to succeed and to print nothing.
\<close>

record split_run =
  train_part :: frame
  val_part :: frame
  test_part :: "frame option"
  stdout :: "line list"
  written :: "(string \<times> file_content) list"

text \<open>The set of the values of a column, and the rows of a table whose value in a column
  is in a given set: what the statements below speak about.\<close>

definition column_values :: "frame \<Rightarrow> string \<Rightarrow> cell set" where
  "column_values df c = set (series_values (column df c))"

definition select_rows :: "frame \<Rightarrow> string \<Rightarrow> cell set \<Rightarrow> frame" where
  "select_rows df c S = df\<lparr>rows := filter (\<lambda>(l, r). cell_at r c \<in> S) (rows df)\<rparr>"

text \<open>
  Lines 126 to 149 of \<^verbatim>\<open>random_splitting\<close>: the seeded train/evaluation split of the
  rows, the set difference that removes the evaluation peptides from the training
  peptides, the selection of all rows of a peptide, the seeded split of the evaluation
  rows, and the second set difference. After line 144 the name \<^verbatim>\<open>X_test\<close> holds the
  sampled peptides without the remaining ones and \<^verbatim>\<open>X_val\<close> the remaining ones, as
  the source assigns them.
\<close>

definition random_splitting_partitions ::
  "rng \<Rightarrow> frame \<Rightarrow> rat \<Rightarrow> rat \<Rightarrow> py_error + (frame \<times> frame \<times> frame option)" where
  "random_splitting_partitions g data eval_frac val_frac =
     and_then (getattr data ''peptide'') (\<lambda>peptide.
     and_then (getattr data ''target_value'') (\<lambda>target_value.
     and_then (train_test_split g (series_values peptide) (series_values target_value)
                 eval_frac (Seeded 42)) (\<lambda>(X_train, X_eval, y_train, y_eval).
     case remove_overlapping_peptides (set X_train) (set X_eval) of (X_train, X_eval) \<Rightarrow>
     and_then (getitem data ''peptide'') (\<lambda>col.
     and_then (loc_mask data (isin col X_train)) (\<lambda>X_train_data.
     and_then (getitem data ''peptide'') (\<lambda>col.
     and_then (loc_mask data (isin col X_eval)) (\<lambda>X_eval_data.
     and_then (sample_frac g (Seeded 42) X_eval_data val_frac) (\<lambda>sampled.
     and_then (getattr sampled ''peptide'') (\<lambda>X_val.
     and_then (drop_labels X_eval_data (series_index X_val)) (\<lambda>remaining.
     and_then (getattr remaining ''peptide'') (\<lambda>X_test.
     and_then
       (if length X_test \<noteq> 0 then
          (case remove_overlapping_peptides (set (series_values X_val)) (set (series_values X_test))
           of (X_test, X_val) \<Rightarrow>
             and_then (getitem data ''peptide'') (\<lambda>col.
             and_then (loc_mask data (isin col X_test)) (\<lambda>X_test_data.
               Inr (X_val, Some X_test_data))))
        else Inr (set (series_values X_val), None)) (\<lambda>(X_val, X_test_data).
     and_then (getitem data ''peptide'') (\<lambda>col.
     and_then (loc_mask data (isin col X_val)) (\<lambda>X_val_data.
       Inr (X_train_data, X_val_data, X_test_data)))))))))))))))"

text \<open>\<^verbatim>\<open>random_splitting\<close>: the partitions, then lines 151 to 170: the overlap
  report, the label summaries, the index files.\<close>

definition random_splitting :: "rng \<Rightarrow> frame \<Rightarrow> string \<Rightarrow> rat \<Rightarrow> rat \<Rightarrow> py_error + split_run" where
  "random_splitting g data out_dir eval_frac val_frac =
     and_then (random_splitting_partitions g data eval_frac val_frac)
       (\<lambda>(X_train_data, X_val_data, X_test_data).
     and_then
       (case X_test_data of
          Some t \<Rightarrow>
            and_then (getattr X_train_data ''peptide'') (\<lambda>train_peptide.
            and_then (getattr X_val_data ''peptide'') (\<lambda>val_peptide.
            and_then (getattr t ''peptide'') (\<lambda>test_peptide.
              validate_split (series_values train_peptide) (series_values val_peptide)
                (Some (series_values test_peptide)))))
        | None \<Rightarrow>
            and_then (getattr X_train_data ''peptide'') (\<lambda>train_peptide.
            and_then (getattr X_val_data ''peptide'') (\<lambda>val_peptide.
              validate_split (series_values train_peptide) (series_values val_peptide) None)))
       (\<lambda>overlaps.
     and_then (label_dist_summary X_train_data ''target_value'' ''training'') (\<lambda>train_summary.
     and_then (label_dist_summary X_val_data ''target_value'' ''validation'') (\<lambda>val_summary.
     and_then
       (case X_test_data of
          Some t \<Rightarrow> label_dist_summary t ''target_value'' ''testing''
        | None \<Rightarrow> Inr []) (\<lambda>test_summary.
       Inr \<lparr>train_part = X_train_data, val_part = X_val_data, test_part = X_test_data,
            stdout = overlaps @ train_summary @ val_summary @ test_summary
                       @ [Text ''Written random splits successfully''],
            written = save_idx out_dir X_train_data X_val_data X_test_data\<rparr>)))))"

section \<open>random_splitting_mouse\<close>

text \<open>
  Lines 179 to 190: the accessions of the rows with label 1, a tenth of them drawn for
  validation, a tenth of the others for test, the rest for training.
  \<^verbatim>\<open>int(len(unique_proteins) * 0.1)\<close> is \<open>len div 10\<close>. The set is sampled through
  an enumeration of its elements; the order of the enumeration does not matter, the
  positions drawn being arbitrary.
\<close>

definition mouse_proteins ::
  "rng \<Rightarrow> frame \<Rightarrow> py_error + (cell set \<times> cell set \<times> cell set \<times> cell set)" where
  "mouse_proteins g data =
     and_then (getattr data ''label'') (\<lambda>label.
     and_then (loc_mask data (equals label (Num 1))) (\<lambda>positive.
     and_then (getitem positive ''Uniprot Accession'') (\<lambda>accession.
     let unique_proteins = remdups (series_values accession);
         k = length unique_proteins div 10 in
     and_then (random_sample g (Unseeded 0) unique_proteins k) (\<lambda>val_proteins.
     and_then (random_sample g (Unseeded 1)
                 (filter (\<lambda>p. p \<notin> set val_proteins) unique_proteins) k) (\<lambda>test_proteins.
     let train_proteins = set unique_proteins - (set test_proteins \<union> set val_proteins) in
       Inr (set unique_proteins, train_proteins, set val_proteins, set test_proteins))))))"

text \<open>Lines 192 to 194: \<^verbatim>\<open>data.loc[data["Uniprot Accession"].isin(proteins)]\<close>.\<close>

definition select_by_accession :: "frame \<Rightarrow> cell set \<Rightarrow> py_error + frame" where
  "select_by_accession data proteins =
     and_then (getitem data ''Uniprot Accession'') (\<lambda>accession.
       loc_mask data (isin accession proteins))"

text \<open>
  Lines 196 to 210: five negatives per row of each partition, drawn without a seed from
  the rows with label 0; after each of the first two draws the rows whose peptide was
  drawn so far are removed from the table the next draw reads. The record keeps the
  three pools the draws read and the three draws.
\<close>

record negative_draws =
  pool_train :: frame
  train_neg :: frame
  pool_val :: frame
  val_neg :: frame
  pool_test :: frame
  test_neg :: frame

definition mouse_negatives ::
  "rng \<Rightarrow> frame \<Rightarrow> frame \<Rightarrow> frame \<Rightarrow> frame \<Rightarrow> py_error + negative_draws" where
  "mouse_negatives g data X_train_data X_val_data X_test_data =
     and_then (getattr data ''label'') (\<lambda>label.
     and_then (loc_mask data (equals label (Num 0))) (\<lambda>pool0.
     and_then (sample g (Unseeded 2) pool0 (int (length (rows X_train_data)) * 5))
       (\<lambda>X_train_data_neg.
     and_then (getattr data ''label'') (\<lambda>label.
     and_then (loc_mask data (equals label (Num 0))) (\<lambda>negatives.
     and_then (getitem data ''Peptide Sequence'') (\<lambda>seq.
     and_then (getitem X_train_data_neg ''Peptide Sequence'') (\<lambda>train_seq.
     and_then (loc_mask negatives (invert (isin seq (set (series_values train_seq)))))
       (\<lambda>data.
     and_then (getattr data ''label'') (\<lambda>label.
     and_then (loc_mask data (equals label (Num 0))) (\<lambda>pool1.
     and_then (sample g (Unseeded 3) pool1 (int (length (rows X_val_data)) * 5))
       (\<lambda>X_val_data_neg.
     and_then (getattr data ''label'') (\<lambda>label.
     and_then (loc_mask data (equals label (Num 0))) (\<lambda>negatives.
     and_then (getitem data ''Peptide Sequence'') (\<lambda>seq.
     and_then (getitem X_val_data_neg ''Peptide Sequence'') (\<lambda>val_seq.
     and_then (getitem X_train_data_neg ''Peptide Sequence'') (\<lambda>train_seq.
     and_then (loc_mask negatives
                 (invert (isin seq (set (series_values val_seq)
                                      \<union> set (series_values train_seq))))) (\<lambda>data.
     and_then (getattr data ''label'') (\<lambda>label.
     and_then (loc_mask data (equals label (Num 0))) (\<lambda>pool2.
     and_then (sample g (Unseeded 4) pool2 (int (length (rows X_test_data)) * 5))
       (\<lambda>X_test_data_neg.
       Inr \<lparr>pool_train = pool0, train_neg = X_train_data_neg,
            pool_val = pool1, val_neg = X_val_data_neg,
            pool_test = pool2, test_neg = X_test_data_neg\<rparr>))))))))))))))))))))"

text \<open>\<^verbatim>\<open>random_splitting_mouse\<close>, with \<^verbatim>\<open>SPLITS_DIR\<close> (mhciipresentation.paths, not
  among the sources) as a parameter.\<close>

definition random_splitting_mouse :: "rng \<Rightarrow> string \<Rightarrow> frame \<Rightarrow> py_error + split_run" where
  "random_splitting_mouse g SPLITS_DIR data =
     and_then (mouse_proteins g data)
       (\<lambda>(unique_proteins, train_proteins, val_proteins, test_proteins).
     and_then (select_by_accession data train_proteins) (\<lambda>X_train_data.
     and_then (select_by_accession data val_proteins) (\<lambda>X_val_data.
     and_then (select_by_accession data test_proteins) (\<lambda>X_test_data.
     and_then (mouse_negatives g data X_train_data X_val_data X_test_data) (\<lambda>neg.
     let X_train_data = append_frames X_train_data (train_neg neg);
         X_val_data = append_frames X_val_data (val_neg neg);
         X_test_data = append_frames X_test_data (test_neg neg) in
     and_then (label_dist_summary X_train_data ''label'' ''training'') (\<lambda>train_summary.
     and_then (label_dist_summary X_val_data ''label'' ''validation'') (\<lambda>val_summary.
     and_then (label_dist_summary X_test_data ''label'' ''testing'') (\<lambda>test_summary.
     let out_dir = SPLITS_DIR @ ''/mouse/'' @ ''/random/'' in
       Inr \<lparr>train_part = X_train_data, val_part = X_val_data, test_part = Some X_test_data,
            stdout = train_summary @ val_summary @ test_summary
                       @ [Text ''Written random splits successfully''],
            written = save_idx out_dir X_train_data X_val_data (Some X_test_data)
                       @ [(out_dir @ ''X_train.csv'', FrameCsv X_train_data),
                          (out_dir @ ''X_val.csv'', FrameCsv X_val_data),
                          (out_dir @ ''X_test.csv'', FrameCsv X_test_data)]\<rparr>))))))))"

section \<open>leventstein\<close>

text \<open>\<^verbatim>\<open>Series.drop_duplicates()\<close> keeps the first row of each value.\<close>

fun first_occurrences :: "cell list \<Rightarrow> series \<Rightarrow> series" where
  "first_occurrences seen [] = []"
| "first_occurrences seen ((l, v) # s) =
     (if v \<in> set seen then first_occurrences seen s
      else (l, v) # first_occurrences (v # seen) s)"

definition drop_duplicates :: "series \<Rightarrow> series" where
  "drop_duplicates s = first_occurrences [] s"

text \<open>
  \<^verbatim>\<open>left.merge(right, on=key, how="left")\<close>: KeyError when a table lacks the key; every
  row of the left table in its order, once for each row of the right table with the same
  key, and once with NaN in the right table's columns when there is none; a column name
  that both tables have gets the suffixes \<open>_x\<close> and \<open>_y\<close>; the result is indexed
  \<open>0, 1, 2, ...\<close>.
\<close>

definition merge_left :: "frame \<Rightarrow> frame \<Rightarrow> string \<Rightarrow> py_error + frame" where
  "merge_left left right key =
     (if key \<notin> set (columns left) \<or> key \<notin> set (columns right) then Inl KeyError
      else
        let others = filter (\<lambda>c. c \<noteq> key) (columns right);
            shared = filter (\<lambda>c. c \<in> set others) (columns left);
            rename = (\<lambda>suffix c. if c \<in> set shared then c @ suffix else c);
            lcells = (\<lambda>r. map (\<lambda>c. (rename ''_x'' c, cell_at r c)) (columns left));
            rcells = (\<lambda>r. map (\<lambda>c. (rename ''_y'' c, cell_at r c)) others);
            joined = concat (map (\<lambda>(l, r).
                       let ms = filter (\<lambda>(l', r'). cell_at r' key = cell_at r key) (rows right)
                       in if ms = [] then [lcells r]
                          else map (\<lambda>(l', r'). lcells r @ rcells r') ms) (rows left))
        in Inr \<lparr>columns = map (rename ''_x'') (columns left) @ map (rename ''_y'') others,
                rows = zip [0..<length joined] joined\<rparr>)"

text \<open>
  Lines 269 to 276, with the table read from \<^verbatim>\<open>pos_pep_lev_groups.csv\<close> as a
  parameter: the table is shuffled, the distinct group ids are taken, 80 percent of them
  are drawn for training, half of the others for validation, the rest is for test.
\<close>

definition leventstein_groups ::
  "rng \<Rightarrow> frame \<Rightarrow> py_error + (frame \<times> series \<times> series \<times> series)" where
  "leventstein_groups g pos_groups =
     and_then (sample_frac g (Unseeded 0) pos_groups 1) (\<lambda>pos_groups.
     and_then (getitem pos_groups ''lev_group'') (\<lambda>lev_group.
     let lev_groups = drop_duplicates lev_group in
     and_then (sample_frac_list g (Unseeded 1) lev_groups (4 / 5)) (\<lambda>lev_group_train.
     and_then (drop_list lev_groups (series_index lev_group_train)) (\<lambda>lev_group_eval.
     and_then (sample_frac_list g (Unseeded 2) lev_group_eval (1 / 2)) (\<lambda>lev_group_val.
     and_then (drop_list lev_group_eval (series_index lev_group_val)) (\<lambda>lev_group_test.
       Inr (pos_groups, lev_group_train, lev_group_val, lev_group_test)))))))"

text \<open>Lines 279 to 287:
  \<^verbatim>\<open>data.loc[data["lev_group"].isin(groups.tolist())].drop(columns=["lev_group"])\<close>,
  and its first half, the rows selected, for the statements about group ids.\<close>

definition rows_of_groups :: "frame \<Rightarrow> series \<Rightarrow> py_error + frame" where
  "rows_of_groups data lev_group_part =
     and_then (getitem data ''lev_group'') (\<lambda>lev_group.
       loc_mask data (isin lev_group (set (series_values lev_group_part))))"

definition select_by_group :: "frame \<Rightarrow> series \<Rightarrow> py_error + frame" where
  "select_by_group data lev_group_part =
     and_then (rows_of_groups data lev_group_part) (\<lambda>selected.
       drop_column selected ''lev_group'')"

text \<open>\<^verbatim>\<open>data[data["peptide"].isin(peptides)]\<close>.\<close>

definition select_by_peptide :: "frame \<Rightarrow> cell set \<Rightarrow> py_error + frame" where
  "select_by_peptide data wanted =
     and_then (getitem data ''peptide'') (\<lambda>peptide. loc_mask data (isin peptide wanted))"

text \<open>\<^verbatim>\<open>leventstein\<close>, with \<^verbatim>\<open>SPLITS_DIR\<close> and the group table as parameters.\<close>

definition leventstein :: "rng \<Rightarrow> string \<Rightarrow> frame \<Rightarrow> frame \<Rightarrow> py_error + split_run" where
  "leventstein g SPLITS_DIR pos_groups_csv data =
     and_then (leventstein_groups g pos_groups_csv)
       (\<lambda>(pos_groups, lev_group_train, lev_group_val, lev_group_test).
     and_then (merge_left data pos_groups ''peptide'') (\<lambda>data.
     and_then (select_by_group data lev_group_train) (\<lambda>positive_peptides_train.
     and_then (select_by_group data lev_group_val) (\<lambda>positive_peptides_val.
     and_then (select_by_group data lev_group_test) (\<lambda>positive_peptides_test.
     and_then (getitem data ''target_value'') (\<lambda>target_value.
     and_then (loc_mask data (equals target_value (Num 0))) (\<lambda>negative_data.
     and_then (getattr negative_data ''peptide'') (\<lambda>neg_peptide.
     and_then (getattr negative_data ''target_value'') (\<lambda>neg_target.
     and_then (train_test_split g (series_values neg_peptide) (series_values neg_target)
                 (1 / 5) (Seeded 42)) (\<lambda>(neg_X_train, neg_X_eval, y_train, y_eval).
     case remove_overlapping_peptides (set neg_X_train) (set neg_X_eval)
     of (neg_X_train, neg_X_eval) \<Rightarrow>
     and_then (select_by_peptide data neg_X_train) (\<lambda>negative_peptides_train.
     and_then (select_by_peptide data neg_X_eval) (\<lambda>X_eval_data.
     and_then (sample_frac g (Seeded 42) X_eval_data (1 / 2)) (\<lambda>X_val.
     and_then (drop_labels X_eval_data (frame_index X_val)) (\<lambda>X_test.
     and_then (getattr X_test ''peptide'') (\<lambda>test_peptide.
     and_then (getattr X_val ''peptide'') (\<lambda>val_peptide.
     case remove_overlapping_peptides (set (series_values test_peptide))
            (set (series_values val_peptide))
     of (X_test, X_val) \<Rightarrow>
     and_then (select_by_peptide data X_val) (\<lambda>negative_peptides_val.
     and_then (select_by_peptide data X_test) (\<lambda>negative_peptides_test.
     let train_data = append_frames positive_peptides_train negative_peptides_train;
         val_data = append_frames positive_peptides_val negative_peptides_val;
         test_data = append_frames positive_peptides_test negative_peptides_test in
     and_then (getattr train_data ''peptide'') (\<lambda>train_peptide.
     and_then (getattr val_data ''peptide'') (\<lambda>val_peptide.
     and_then (getattr test_data ''peptide'') (\<lambda>test_peptide.
     and_then (validate_split (series_values train_peptide) (series_values val_peptide)
                 (Some (series_values test_peptide))) (\<lambda>overlaps.
     and_then (label_dist_summary train_data ''target_value'' ''training'') (\<lambda>train_summary.
     and_then (label_dist_summary val_data ''target_value'' ''validation'') (\<lambda>val_summary.
     and_then (label_dist_summary test_data ''target_value'' ''testing'') (\<lambda>test_summary.
     let out_dir = SPLITS_DIR @ ''/levenstein/'' in
       Inr \<lparr>train_part = train_data, val_part = val_data, test_part = Some test_data,
            stdout = overlaps @ train_summary @ val_summary @ test_summary
                       @ [Text ''Written random splits successfully''],
            written = save_idx out_dir train_data val_data (Some test_data)\<rparr>
     )))))))))))))))))))))))))"

section \<open>motif_exclusion\<close>

text \<open>The decimal digits of a number, as an f-string writes \<^verbatim>\<open>{i+1}\<close>.\<close>

function decimal :: "nat \<Rightarrow> string" where
  "decimal n =
     (if n < 10 then [''0123456789'' ! n]
      else decimal (n div 10) @ [''0123456789'' ! (n mod 10)])"
  by pat_completeness auto
termination
  by (relation "measure id") auto

text \<open>\<^verbatim>\<open>df[[c1, c2]]\<close>: the listed columns, KeyError when one is missing; and
  \<^verbatim>\<open>DataFrame.drop_duplicates()\<close>, which keeps the first of the rows that agree in
  every column.\<close>

definition select_columns :: "frame \<Rightarrow> string list \<Rightarrow> py_error + frame" where
  "select_columns df cs =
     (if \<not> set cs \<subseteq> set (columns df) then Inl KeyError
      else Inr \<lparr>columns = cs,
                rows = map (\<lambda>(l, r). (l, map (\<lambda>c. (c, cell_at r c)) cs)) (rows df)\<rparr>)"

fun first_rows ::
  "string list \<Rightarrow> cell list list \<Rightarrow> (nat \<times> (string \<times> cell) list) list
     \<Rightarrow> (nat \<times> (string \<times> cell) list) list" where
  "first_rows cs seen [] = []"
| "first_rows cs seen ((l, r) # rest) =
     (let key = map (cell_at r) cs in
      if key \<in> set seen then first_rows cs seen rest
      else (l, r) # first_rows cs (key # seen) rest)"

definition drop_duplicate_rows :: "frame \<Rightarrow> frame" where
  "drop_duplicate_rows df = df\<lparr>rows := first_rows (columns df) [] (rows df)\<rparr>"

text \<open>
  One pass of the loop of \<^verbatim>\<open>motif_exclusion\<close> (lines 245 to 260): the rows of the
  merged table that come from the training file of the fold, the rows of \<open>data\<close>
  with one of their peptides, the same for the test file of the fold, the two label
  summaries, the overlap report and the index files.
\<close>

definition motif_exclusion_fold ::
  "string \<Rightarrow> frame \<Rightarrow> frame \<Rightarrow> nat \<Rightarrow> py_error + split_run" where
  "motif_exclusion_fold motifs_splits_dir data data_with_filename i =
     and_then (getattr data_with_filename ''file_name'') (\<lambda>file_name.
     and_then (loc_mask data_with_filename
                 (equals file_name (Str (''train_EL'' @ decimal (i + 1) @ ''.txt''))))
       (\<lambda>X_train.
     and_then (getattr data ''peptide'') (\<lambda>peptide.
     and_then (getattr X_train ''peptide'') (\<lambda>train_peptide.
     and_then (loc_mask data (isin peptide (set (series_values train_peptide)))) (\<lambda>X_train.
     and_then (getattr data_with_filename ''file_name'') (\<lambda>file_name.
     and_then (loc_mask data_with_filename
                 (equals file_name (Str (''test_EL'' @ decimal (i + 1) @ ''.txt''))))
       (\<lambda>X_val.
     and_then (getattr data ''peptide'') (\<lambda>peptide.
     and_then (getattr X_val ''peptide'') (\<lambda>val_peptide.
     and_then (loc_mask data (isin peptide (set (series_values val_peptide)))) (\<lambda>X_val.
     and_then (label_dist_summary X_train ''target_value'' ''training'') (\<lambda>train_summary.
     and_then (label_dist_summary X_val ''target_value'' ''validation'') (\<lambda>val_summary.
     and_then (getattr X_train ''peptide'') (\<lambda>train_peptide.
     and_then (getattr X_val ''peptide'') (\<lambda>val_peptide.
     and_then (validate_split (series_values train_peptide) (series_values val_peptide) None)
       (\<lambda>overlaps.
     let out_dir = motifs_splits_dir @ ''/split_'' @ decimal (i + 1) @ ''/'' in
       Inr \<lparr>train_part = X_train, val_part = X_val, test_part = None,
            stdout = train_summary @ val_summary @ overlaps
                       @ [Text (''Done with split '' @ decimal (i + 1))],
            written = save_idx out_dir X_train X_val None\<rparr>)))))))))))))))"

text \<open>The loop stops at the first pass that raises.\<close>

fun motif_exclusion_folds ::
  "string \<Rightarrow> frame \<Rightarrow> frame \<Rightarrow> nat list \<Rightarrow> py_error + split_run list" where
  "motif_exclusion_folds motifs_splits_dir data data_with_filename [] = Inr []"
| "motif_exclusion_folds motifs_splits_dir data data_with_filename (i # rest) =
     and_then (motif_exclusion_fold motifs_splits_dir data data_with_filename i) (\<lambda>run.
     and_then (motif_exclusion_folds motifs_splits_dir data data_with_filename rest) (\<lambda>runs.
       Inr (run # runs)))"

text \<open>
  \<^verbatim>\<open>motif_exclusion\<close>. \<^verbatim>\<open>select_data_files\<close>, \<^verbatim>\<open>load_raw_files\<close>, \<^verbatim>\<open>RAW_DATA\<close>,
  \<^verbatim>\<open>N_MOTIF_FOLDS\<close> and \<^verbatim>\<open>SPLITS_DIR\<close> are not among the sources: the table that
  \<^verbatim>\<open>load_raw_files\<close> returns, the number of folds and the directory are parameters.
  The result is the list of the runs of the folds.
\<close>

definition motif_exclusion ::
  "string \<Rightarrow> nat \<Rightarrow> frame \<Rightarrow> frame \<Rightarrow> py_error + split_run list" where
  "motif_exclusion SPLITS_DIR N_MOTIF_FOLDS raw_files data =
     and_then (select_columns raw_files [''peptide'', ''file_name'']) (\<lambda>files.
     and_then (merge_left data (drop_duplicate_rows files) ''peptide'') (\<lambda>data_with_filename.
     let motifs_splits_dir = SPLITS_DIR @ ''/motifs/'' in
       motif_exclusion_folds motifs_splits_dir data data_with_filename [0..<N_MOTIF_FOLDS]))"

section \<open>TransformerModel (models.py)\<close>

text \<open>
  An object is the list of the attributes assigned to it. Tensors, the loss and the
  metrics compute in floating point, so the tensor type and the network, loss and
  metric functions are parameters. \<^verbatim>\<open>__init__\<close> assigns the ten attributes below; its
  \<^verbatim>\<open>metrics\<close> argument is assigned to no attribute.
\<close>

datatype 't attribute =
  AStr string | ANat nat | ARat rat | AModule
  | ALoss "'t \<Rightarrow> 't \<Rightarrow> 't" | AMetrics "(string \<times> ('t \<Rightarrow> 't \<Rightarrow> 't)) list"

definition TransformerModel_init ::
  "nat \<Rightarrow> nat \<Rightarrow> nat \<Rightarrow> nat \<Rightarrow> nat \<Rightarrow> nat \<Rightarrow> nat \<Rightarrow> rat \<Rightarrow> nat \<Rightarrow> rat \<Rightarrow> rat
     \<Rightarrow> ('t \<Rightarrow> 't \<Rightarrow> 't) \<Rightarrow> (string \<times> ('t \<Rightarrow> 't \<Rightarrow> 't)) list
     \<Rightarrow> (string \<times> 't attribute) list" where
  "TransformerModel_init seq_len n_tokens embedding_size n_attn_heads enc_ff_hidden
       ff_hidden n_layers dropout max_len start_learning_rate weight_decay loss_fn metrics =
     [(''model_type'', AStr ''Transformer''),
      (''seq_len'', ANat seq_len),
      (''pos_encoder'', AModule),
      (''transformer_encoder'', AModule),
      (''embedding'', AModule),
      (''feedforward'', AModule),
      (''embedding_size'', ANat embedding_size),
      (''loss_fn'', ALoss loss_fn),
      (''start_learning_rate'', ARat start_learning_rate),
      (''weight_decay'', ARat weight_decay)]"

definition self_getattr ::
  "(string \<times> 't attribute) list \<Rightarrow> string \<Rightarrow> py_error + 't attribute" where
  "self_getattr self name =
     (case map_of self name of None \<Rightarrow> Inl AttributeError | Some v \<Rightarrow> Inr v)"

text \<open>\<^verbatim>\<open>self(...)\<close> calls \<^verbatim>\<open>forward(self, src, src_padding_mask)\<close> with the arguments
  given: TypeError unless there are two. \<open>net\<close> is what \<^verbatim>\<open>forward\<close> computes.\<close>

definition call_model ::
  "('b \<Rightarrow> 'b \<Rightarrow> 't) \<Rightarrow> (string \<times> 't attribute) list \<Rightarrow> 'b list \<Rightarrow> py_error + 't" where
  "call_model net self args =
     (case args of
        [src, src_padding_mask] \<Rightarrow> Inr (net src src_padding_mask)
      | _ \<Rightarrow> Inl TypeError)"

text \<open>\<^verbatim>\<open>evaluate_model\<close> logs one value per key of \<^verbatim>\<open>self.metrics\<close>.\<close>

definition evaluate_model ::
  "(string \<times> 't attribute) list \<Rightarrow> 't \<Rightarrow> 't \<Rightarrow> string \<Rightarrow> py_error + (string \<times> 't) list" where
  "evaluate_model self y_true y_pred prefix =
     and_then (self_getattr self ''metrics'') (\<lambda>m.
       case m of
         AMetrics metrics \<Rightarrow>
           Inr (map (\<lambda>(metric, f). (prefix @ ''_'' @ metric, f y_true y_pred)) metrics)
       | _ \<Rightarrow> Inl AttributeError)"

text \<open>The three steps: the value returned and the values logged. \<open>y_of\<close> reads
  \<^verbatim>\<open>batch.y\<close>.\<close>

definition model_step ::
  "string \<Rightarrow> string \<Rightarrow> ('b \<Rightarrow> 'b \<Rightarrow> 't) \<Rightarrow> ('b \<Rightarrow> 't) \<Rightarrow> (string \<times> 't attribute) list \<Rightarrow> 'b
     \<Rightarrow> py_error + ('t \<times> (string \<times> 't) list)" where
  "model_step loss_name prefix net y_of self batch =
     and_then (call_model net self [batch]) (\<lambda>y_hat.
     and_then (self_getattr self ''loss_fn'') (\<lambda>l.
       case l of
         ALoss loss_fn \<Rightarrow>
           let loss = loss_fn y_hat (y_of batch) in
           and_then (evaluate_model self (y_of batch) y_hat prefix) (\<lambda>logged.
             Inr (loss, (loss_name, loss) # logged))
       | _ \<Rightarrow> Inl TypeError))"

definition training_step ::
  "('b \<Rightarrow> 'b \<Rightarrow> 't) \<Rightarrow> ('b \<Rightarrow> 't) \<Rightarrow> (string \<times> 't attribute) list \<Rightarrow> 'b \<Rightarrow> nat
     \<Rightarrow> py_error + ('t option \<times> (string \<times> 't) list)" where
  "training_step net y_of self batch batch_idx =
     and_then (model_step ''train_loss'' ''train'' net y_of self batch)
       (\<lambda>(loss, logged). Inr (Some loss, logged))"

definition validation_step ::
  "('b \<Rightarrow> 'b \<Rightarrow> 't) \<Rightarrow> ('b \<Rightarrow> 't) \<Rightarrow> (string \<times> 't attribute) list \<Rightarrow> 'b \<Rightarrow> nat
     \<Rightarrow> py_error + ('t option \<times> (string \<times> 't) list)" where
  "validation_step net y_of self batch batch_idx =
     and_then (model_step ''val_loss'' ''validation'' net y_of self batch)
       (\<lambda>(loss, logged). Inr (None, logged))"

definition test_step ::
  "('b \<Rightarrow> 'b \<Rightarrow> 't) \<Rightarrow> ('b \<Rightarrow> 't) \<Rightarrow> (string \<times> 't attribute) list \<Rightarrow> 'b \<Rightarrow> nat
     \<Rightarrow> py_error + ('t option \<times> (string \<times> 't) list)" where
  "test_step net y_of self batch batch_idx =
     and_then (model_step ''test_loss'' ''test'' net y_of self batch)
       (\<lambda>(loss, logged). Inr (None, logged))"

section \<open>Example tables\<close>

text \<open>A generator whose every draw is the identity permutation, and a table of eight
  peptides with alternating labels.\<close>

definition identity_rng :: rng where
  "identity_rng = \<lparr>seeded_permutation = (\<lambda>seed n. [0..<n]), unseeded_permutation = (\<lambda>k n. [0..<n])\<rparr>"

definition human_row :: "nat \<Rightarrow> string \<Rightarrow> int \<Rightarrow> nat \<times> (string \<times> cell) list" where
  "human_row i pep t = (i, [(''peptide'', Str pep), (''target_value'', Num t)])"

definition human_table :: frame where
  "human_table = \<lparr>columns = [''peptide'', ''target_value''],
     rows = [human_row 0 ''AAA'' 0, human_row 1 ''AAC'' 1, human_row 2 ''AAD'' 0, human_row 3 ''AAE'' 1,
             human_row 4 ''AAF'' 0, human_row 5 ''AAG'' 1, human_row 6 ''AAH'' 0, human_row 7 ''AAI'' 1]\<rparr>"

text \<open>A mouse table of ten proteins with one positive row each, the first two
  presenting the same peptide, and fifty negative rows.\<close>

definition mouse_row :: "nat \<Rightarrow> int \<Rightarrow> string \<Rightarrow> string \<Rightarrow> nat \<times> (string \<times> cell) list" where
  "mouse_row i lab acc pep =
     (i, [(''label'', Num lab), (''Uniprot Accession'', Str acc), (''Peptide Sequence'', Str pep)])"

definition mouse_table :: frame where
  "mouse_table = \<lparr>columns = [''label'', ''Uniprot Accession'', ''Peptide Sequence''],
     rows = [
        mouse_row 0 1 ''P0'' ''KV'', mouse_row 1 1 ''P1'' ''KV'', mouse_row 2 1 ''P2'' ''WD'',
        mouse_row 3 1 ''P3'' ''WE'', mouse_row 4 1 ''P4'' ''WF'', mouse_row 5 1 ''P5'' ''WG'',
        mouse_row 6 1 ''P6'' ''WH'', mouse_row 7 1 ''P7'' ''WI'', mouse_row 8 1 ''P8'' ''WK'',
        mouse_row 9 1 ''P9'' ''WL'', mouse_row 10 0 ''Q'' ''AA'', mouse_row 11 0 ''Q'' ''AC'',
        mouse_row 12 0 ''Q'' ''AD'', mouse_row 13 0 ''Q'' ''AE'', mouse_row 14 0 ''Q'' ''AF'',
        mouse_row 15 0 ''Q'' ''AG'', mouse_row 16 0 ''Q'' ''AH'', mouse_row 17 0 ''Q'' ''AI'',
        mouse_row 18 0 ''Q'' ''AK'', mouse_row 19 0 ''Q'' ''AL'', mouse_row 20 0 ''Q'' ''CA'',
        mouse_row 21 0 ''Q'' ''CC'', mouse_row 22 0 ''Q'' ''CD'', mouse_row 23 0 ''Q'' ''CE'',
        mouse_row 24 0 ''Q'' ''CF'', mouse_row 25 0 ''Q'' ''CG'', mouse_row 26 0 ''Q'' ''CH'',
        mouse_row 27 0 ''Q'' ''CI'', mouse_row 28 0 ''Q'' ''CK'', mouse_row 29 0 ''Q'' ''CL'',
        mouse_row 30 0 ''Q'' ''DA'', mouse_row 31 0 ''Q'' ''DC'', mouse_row 32 0 ''Q'' ''DD'',
        mouse_row 33 0 ''Q'' ''DE'', mouse_row 34 0 ''Q'' ''DF'', mouse_row 35 0 ''Q'' ''DG'',
        mouse_row 36 0 ''Q'' ''DH'', mouse_row 37 0 ''Q'' ''DI'', mouse_row 38 0 ''Q'' ''DK'',
        mouse_row 39 0 ''Q'' ''DL'', mouse_row 40 0 ''Q'' ''EA'', mouse_row 41 0 ''Q'' ''EC'',
        mouse_row 42 0 ''Q'' ''ED'', mouse_row 43 0 ''Q'' ''EE'', mouse_row 44 0 ''Q'' ''EF'',
        mouse_row 45 0 ''Q'' ''EG'', mouse_row 46 0 ''Q'' ''EH'', mouse_row 47 0 ''Q'' ''EI'',
        mouse_row 48 0 ''Q'' ''EK'', mouse_row 49 0 ''Q'' ''EL'', mouse_row 50 0 ''Q'' ''FA'',
        mouse_row 51 0 ''Q'' ''FC'', mouse_row 52 0 ''Q'' ''FD'', mouse_row 53 0 ''Q'' ''FE'',
        mouse_row 54 0 ''Q'' ''FF'', mouse_row 55 0 ''Q'' ''FG'', mouse_row 56 0 ''Q'' ''FH'',
        mouse_row 57 0 ''Q'' ''FI'', mouse_row 58 0 ''Q'' ''FK'', mouse_row 59 0 ''Q'' ''FL'']\<rparr>"

text \<open>The mouse table with five more negative rows, the first of them a row of
  protein P0.\<close>

definition shared_mouse_table :: frame where
  "shared_mouse_table = mouse_table\<lparr>rows := rows mouse_table @
     [mouse_row 60 0 ''P0'' ''GA'', mouse_row 61 0 ''Q'' ''GC'', mouse_row 62 0 ''Q'' ''GD'',
      mouse_row 63 0 ''Q'' ''GE'', mouse_row 64 0 ''Q'' ''GF'']\<rparr>"

text \<open>A table of three peptides and a table of raw files that lists the first
  peptide in the training file and in the test file of the first fold.\<close>

definition file_row :: "nat \<Rightarrow> string \<Rightarrow> string \<Rightarrow> nat \<times> (string \<times> cell) list" where
  "file_row i pep file = (i, [(''peptide'', Str pep), (''file_name'', Str file)])"

definition motif_table :: frame where
  "motif_table = \<lparr>columns = [''peptide'', ''target_value''],
     rows = [human_row 0 ''AAA'' 1, human_row 1 ''AAC'' 0, human_row 2 ''AAD'' 0]\<rparr>"

definition motif_files :: frame where
  "motif_files = \<lparr>columns = [''peptide'', ''file_name''],
     rows = [file_row 0 ''AAA'' ''train_EL1.txt'', file_row 1 ''AAC'' ''train_EL1.txt'',
             file_row 2 ''AAA'' ''test_EL1.txt'', file_row 3 ''AAD'' ''test_EL1.txt'']\<rparr>"

text \<open>A table of ten positive and six negative rows, the peptide PH having a row of
  each kind, and a table of groups in which PH and QH share group 6 and PA and QA
  share group 0.\<close>

definition group_row :: "nat \<Rightarrow> string \<Rightarrow> int \<Rightarrow> nat \<times> (string \<times> cell) list" where
  "group_row i pep gid = (i, [(''peptide'', Str pep), (''lev_group'', Num gid)])"

definition lev_table :: frame where
  "lev_table = \<lparr>columns = [''peptide'', ''target_value''],
     rows = [human_row 0 ''PA'' 1, human_row 1 ''PC'' 1, human_row 2 ''PD'' 1,
             human_row 3 ''PE'' 1, human_row 4 ''PF'' 1, human_row 5 ''PG'' 1,
             human_row 6 ''PH'' 1, human_row 7 ''PI'' 1, human_row 8 ''QH'' 1,
             human_row 9 ''NA'' 0, human_row 10 ''NC'' 0, human_row 11 ''ND'' 0,
             human_row 12 ''NE'' 0, human_row 13 ''NF'' 0, human_row 14 ''PH'' 0,
             human_row 15 ''QA'' 1]\<rparr>"

definition lev_groups_table :: frame where
  "lev_groups_table = \<lparr>columns = [''peptide'', ''lev_group''],
     rows = [group_row 0 ''PA'' 0, group_row 1 ''PC'' 1, group_row 2 ''PD'' 2,
             group_row 3 ''PE'' 3, group_row 4 ''PF'' 4, group_row 5 ''PG'' 5,
             group_row 6 ''PH'' 6, group_row 7 ''PI'' 7, group_row 8 ''QH'' 6,
             group_row 9 ''QA'' 0]\<rparr>"



section \<open>Facts about the helpers\<close>

lemma and_then_Inr [simp]: "and_then (Inr x) f = f x"
  by (simp add: and_then_def)

lemma and_then_Inl [simp]: "and_then (Inl e) f = Inl e"
  by (simp add: and_then_def)

lemma and_then_eq_Inr:
  "and_then r f = Inr y \<longleftrightarrow> (\<exists>x. r = Inr x \<and> f x = Inr y)"
  by (cases r) simp_all

lemma map_of_graph:
  "map_of (map (\<lambda>v. (v, f v)) xs) v = (if v \<in> set xs then Some (f v) else None)"
  by (induction xs) auto

lemma count_list_filter_other:
  "v \<noteq> w \<Longrightarrow> count_list (filter (\<lambda>x. x \<noteq> w) xs) v = count_list xs v"
  by (induction xs) auto

lemma map_of_value_counts:
  "map_of (value_counts s) v =
     (if v \<noteq> NaN \<and> v \<in> set (series_values s)
      then Some (count_list (series_values s) v) else None)"
  by (auto simp: value_counts_def Let_def map_of_graph count_list_filter_other)

lemma count_two_labels:
  "\<forall>v \<in> set xs. v = a \<or> v = b \<Longrightarrow> a \<noteq> b \<Longrightarrow> count_list xs a + count_list xs b = length xs"
  by (induction xs) auto

text \<open>
  C2. For all sets \<open>peptides_1\<close> and \<open>peptides_2\<close>, \<open>remove_overlapping_peptides\<close>
  returns the pair of the set difference \<open>peptides_1 - peptides_2\<close> and \<open>peptides_2\<close>
  unchanged: an element is in the first component exactly when it is in \<open>peptides_1\<close>
  and not in \<open>peptides_2\<close>, so the two components share no element.
\<close>

theorem remove_overlapping_peptides_difference:
  "remove_overlapping_peptides peptides_1 peptides_2 = (peptides_1 - peptides_2, peptides_2)
   \<and> (\<forall>x. (x \<in> fst (remove_overlapping_peptides peptides_1 peptides_2))
            = (x \<in> peptides_1 \<and> x \<notin> peptides_2))
   \<and> snd (remove_overlapping_peptides peptides_1 peptides_2) = peptides_2
   \<and> fst (remove_overlapping_peptides peptides_1 peptides_2)
       \<inter> snd (remove_overlapping_peptides peptides_1 peptides_2) = {}"
  by (auto simp: remove_overlapping_peptides_def)

text \<open>
  C10. \<open>validate_split\<close> is purely diagnostic: for every train, validation and
  optional test array, overlapping or not, it returns normally, and what it printed is
  the list of pairwise overlap counts; it raises no error.
\<close>

theorem validate_split_only_prints:
  "validate_split X_train X_val None =
     Inr [Overlap ''train and val'' (card (set X_train \<inter> set X_val))]
   \<and> validate_split X_train X_val (Some X_test) =
     Inr [Overlap ''train and val'' (card (set X_train \<inter> set X_val)),
          Overlap ''train and test'' (card (set X_train \<inter> set X_test)),
          Overlap ''val and test'' (card (set X_val \<inter> set X_test))]
   \<and> (\<forall>e. validate_split X_train X_val X_opt \<noteq> Inl e)"
  by (simp add: validate_split_def)

text \<open>
  C5. When the target column of a partition holds only the labels 0 and 1, whatever
  \<open>label_dist_summary\<close> prints is one line whose negative count plus positive count
  is the number of rows of the partition.
\<close>

theorem label_dist_summary_counts_sum:
  assumes labels: "\<forall>v \<in> set (series_values (column data target_col)). v = Num 0 \<or> v = Num 1"
    and printed: "label_dist_summary data target_col dataset_name = Inr out"
  shows "\<exists>negative positive.
           out = [LabelDist dataset_name negative positive]
           \<and> negative + positive = length (rows data)"
proof -
  let ?vs = "series_values (column data target_col)"
  from printed obtain negative positive where
    col: "target_col \<in> set (columns data)"
    and n: "count_of (value_counts (column data target_col)) (Num 0) = Inr negative"
    and p: "count_of (value_counts (column data target_col)) (Num 1) = Inr positive"
    and out: "out = [LabelDist dataset_name negative positive]"
    by (auto simp: label_dist_summary_def getitem_def Let_def and_then_eq_Inr
        split: if_splits)
  from n have "negative = count_list ?vs (Num 0)"
    by (auto simp: count_of_def map_of_value_counts split: if_splits)
  moreover from p have "positive = count_list ?vs (Num 1)"
    by (auto simp: count_of_def map_of_value_counts split: if_splits)
  moreover have "count_list ?vs (Num 0) + count_list ?vs (Num 1) = length ?vs"
    using labels by (intro count_two_labels) auto
  moreover have "length ?vs = length (rows data)"
    by (simp add: series_values_def column_def)
  ultimately show ?thesis using out by simp
qed

section \<open>Facts about tables and draws\<close>

lemma select_zip_map:
  "map snd (filter fst (zip (map P xs) xs)) = filter P xs"
  by (induction xs) auto

lemma mask_index_isin [simp]: "map fst (isin (column df c) S) = frame_index df"
  by (simp add: isin_def column_def frame_index_def comp_def case_prod_beta)

lemma mask_index_equals [simp]: "map fst (equals (column df c) v) = frame_index df"
  by (simp add: equals_def column_def frame_index_def comp_def case_prod_beta)

lemma mask_values_isin:
  "map snd (isin (column df c) S) = map (\<lambda>(l, r). cell_at r c \<in> S) (rows df)"
  by (simp add: isin_def column_def comp_def case_prod_beta)

lemma mask_values_equals:
  "map snd (equals (column df c) v) = map (\<lambda>(l, r). cell_at r c = v) (rows df)"
  by (simp add: equals_def column_def comp_def case_prod_beta)

lemma loc_mask_isin [simp]:
  "loc_mask df (isin (column df c) S) = Inr (select_rows df c S)"
  by (simp add: loc_mask_def mask_values_isin select_zip_map select_rows_def)

lemma equals_isin: "equals s v = isin s {v}"
  by (simp add: equals_def isin_def)

lemma loc_mask_equals [simp]:
  "loc_mask df (equals (column df c) v) = Inr (select_rows df c {v})"
  by (simp add: equals_isin)

lemma getattr_Inr: "getattr df c = Inr s \<Longrightarrow> s = column df c \<and> c \<in> set (columns df)"
  by (auto simp: getattr_def split: if_splits)

lemma getitem_Inr: "getitem df c = Inr s \<Longrightarrow> s = column df c \<and> c \<in> set (columns df)"
  by (auto simp: getitem_def split: if_splits)

lemma column_values_image:
  "column_values df c = (\<lambda>row. cell_at (snd row) c) ` set (rows df)"
  by (force simp: column_values_def series_values_def column_def case_prod_beta)

lemma values_column [simp]:
  "set (series_values (column df c)) = column_values df c"
  by (simp add: column_values_def)

lemma column_values_select [simp]:
  "column_values (select_rows df c S) c = column_values df c \<inter> S"
  by (auto simp: column_values_image select_rows_def)

lemma rows_select_subset: "set (rows (select_rows df c S)) \<subseteq> set (rows df)"
  by (auto simp: select_rows_def)

lemma column_values_mono:
  "set (rows a) \<subseteq> set (rows b) \<Longrightarrow> column_values a c \<subseteq> column_values b c"
  by (auto simp: column_values_image)

lemma column_values_in_select:
  "set (rows s) \<subseteq> set (rows (select_rows df c S)) \<Longrightarrow> column_values s c \<subseteq> S"
  using column_values_mono [of s "select_rows df c S" c] by auto

lemma take_locs_subset:
  "set locs \<subseteq> {0..<length xs} \<Longrightarrow> set (take_locs xs locs) \<subseteq> set xs"
  by (auto simp: take_locs_def)

lemma permutation_valid:
  "valid_rng g \<Longrightarrow> is_permutation (permutation g rs n) n"
  by (cases rs) (auto simp: valid_rng_def permutation_def)

lemma take_permutation_subset:
  "valid_rng g \<Longrightarrow> set (take k (permutation g rs n)) \<subseteq> {0..<n}"
  using permutation_valid [of g rs n] set_take_subset [of k "permutation g rs n"]
  by (auto simp: is_permutation_def)

lemma sample_list_subset:
  "valid_rng g \<Longrightarrow> sample_list g rs xs n = Inr ys \<Longrightarrow> set ys \<subseteq> set xs"
  using take_permutation_subset [of g "nat n" rs "length xs"]
  by (auto simp: sample_list_def split: if_splits dest!: take_locs_subset)

lemma sample_frac_list_subset:
  "valid_rng g \<Longrightarrow> sample_frac_list g rs xs f = Inr ys \<Longrightarrow> set ys \<subseteq> set xs"
  by (auto simp: sample_frac_list_def split: if_splits dest: sample_list_subset)

lemma sample_frac_rows:
  "valid_rng g \<Longrightarrow> sample_frac g rs df f = Inr s \<Longrightarrow> set (rows s) \<subseteq> set (rows df)"
  by (auto simp: sample_frac_def and_then_eq_Inr dest!: sample_frac_list_subset)

lemma sample_rows:
  "valid_rng g \<Longrightarrow> sample g rs df n = Inr s \<Longrightarrow> set (rows s) \<subseteq> set (rows df)"
  by (auto simp: sample_def and_then_eq_Inr dest!: sample_list_subset)

lemma drop_labels_rows:
  "drop_labels df labels = Inr s \<Longrightarrow> set (rows s) \<subseteq> set (rows df)"
  by (auto simp: drop_labels_def drop_list_def and_then_eq_Inr split: if_splits)

lemma random_splitting_partitions_disjoint:
  assumes g: "valid_rng g"
    and run: "random_splitting_partitions g data eval_frac val_frac = Inr (tr, va, te)"
  shows "column_values tr ''peptide'' \<inter> column_values va ''peptide'' = {}
       \<and> (\<forall>t. te = Some t \<longrightarrow>
            column_values tr ''peptide'' \<inter> column_values t ''peptide'' = {}
          \<and> column_values va ''peptide'' \<inter> column_values t ''peptide'' = {})"
  using run
  apply (clarsimp simp: random_splitting_partitions_def and_then_eq_Inr
      remove_overlapping_peptides_def Let_def
      split: prod.splits if_splits dest!: getattr_Inr getitem_Inr)
   apply (drule sample_frac_rows [OF g])
   apply (drule drop_labels_rows)
   apply (drule column_values_in_select)+
   apply blast
  apply (drule sample_frac_rows [OF g])
  apply (drule column_values_in_select)
  apply blast
  done

section \<open>random_splitting: disjoint peptide sets\<close>

lemma valid_identity_rng: "valid_rng identity_rng"
  by (simp add: valid_rng_def identity_rng_def is_permutation_def)

lemma not_isl_Inr: "\<not> isl x \<Longrightarrow> \<exists>r. x = Inr r"
  by (cases x) auto

lemma random_splitting_Inr:
  "random_splitting g data out_dir eval_frac val_frac = Inr r \<Longrightarrow>
   random_splitting_partitions g data eval_frac val_frac = Inr (train_part r, val_part r, test_part r)"
  by (auto simp: random_splitting_def and_then_eq_Inr split: prod.splits option.splits)

text \<open>
  C1, as amended. For every table, every valid generator and every pair of fractions,
  the peptide sets of the partitions that a run of \<open>random_splitting\<close> returns are
  pairwise disjoint: training and validation, and, when there is a test partition,
  training and test, and validation and test. The other three routines do not
  guarantee it: \<open>random_splitting_mouse_shared_peptide\<close>,
  \<open>leventstein_shared_peptide\<close> and \<open>motif_exclusion_shared_peptide\<close> below are
  runs of theirs that return partitions with a common peptide.
\<close>

theorem random_splitting_peptides_disjoint:
  assumes "valid_rng g"
    and "random_splitting g data out_dir eval_frac val_frac = Inr r"
  shows "column_values (train_part r) ''peptide'' \<inter> column_values (val_part r) ''peptide'' = {}
       \<and> (\<forall>t. test_part r = Some t \<longrightarrow>
            column_values (train_part r) ''peptide'' \<inter> column_values t ''peptide'' = {}
          \<and> column_values (val_part r) ''peptide'' \<inter> column_values t ''peptide'' = {})"
  using random_splitting_partitions_disjoint [OF assms(1) random_splitting_Inr [OF assms(2)]] .

lemma human_run: "\<not> isl (random_splitting identity_rng human_table ''out/'' (1 / 2) (1 / 2))"
  by code_simp

lemma human_run_test:
  "(case random_splitting identity_rng human_table ''out/'' (1 / 2) (1 / 2) of
      Inr r \<Rightarrow> test_part r \<noteq> None | Inl e \<Rightarrow> False)"
  by code_simp

theorem random_splitting_peptides_disjoint_witness:
  "\<exists>r t. random_splitting identity_rng human_table ''out/'' (1 / 2) (1 / 2) = Inr r
      \<and> test_part r = Some t
      \<and> column_values (train_part r) ''peptide'' \<inter> column_values (val_part r) ''peptide'' = {}
      \<and> column_values (train_part r) ''peptide'' \<inter> column_values t ''peptide'' = {}
      \<and> column_values (val_part r) ''peptide'' \<inter> column_values t ''peptide'' = {}"
proof -
  obtain r where r: "random_splitting identity_rng human_table ''out/'' (1 / 2) (1 / 2) = Inr r"
    using not_isl_Inr [OF human_run] by blast
  with human_run_test obtain t where t: "test_part r = Some t"
    by auto
  from random_splitting_peptides_disjoint [OF valid_identity_rng r] r t
  show ?thesis by blast
qed

section \<open>random_splitting does not read the process-wide generator\<close>

lemma permutation_seeded_update [simp]:
  "permutation (g\<lparr>unseeded_permutation := u\<rparr>) (Seeded seed) n = permutation g (Seeded seed) n"
  by (simp add: permutation_def)

lemma train_test_split_seeded_update [simp]:
  "train_test_split (g\<lparr>unseeded_permutation := u\<rparr>) X y test_size (Seeded seed)
     = train_test_split g X y test_size (Seeded seed)"
  by (simp add: train_test_split_def Let_def)

lemma sample_frac_seeded_update [simp]:
  "sample_frac (g\<lparr>unseeded_permutation := u\<rparr>) (Seeded seed) df fraction
     = sample_frac g (Seeded seed) df fraction"
  by (simp add: sample_frac_def sample_frac_list_def sample_list_def)

text \<open>
  C4. \<open>random_splitting\<close> is deterministic for its fixed seed: both of its draws are
  seeded with 42, so whatever the state of the process-wide generator, two runs on the
  same table with the same fractions return the same partitions, the same printed lines
  and the same index files.
\<close>

theorem random_splitting_deterministic:
  "random_splitting (g\<lparr>unseeded_permutation := u\<rparr>) data out_dir eval_frac val_frac
     = random_splitting g data out_dir eval_frac val_frac"
  by (simp add: random_splitting_def random_splitting_partitions_def)

section \<open>random_splitting_mouse: the protein sets\<close>

lemma random_sample_subset:
  "valid_rng g \<Longrightarrow> random_sample g rs population k = Inr ys \<Longrightarrow> set ys \<subseteq> set population"
  using take_permutation_subset [of g k rs "length population"]
  by (auto simp: random_sample_def split: if_splits dest!: take_locs_subset)

lemma select_by_accession_Inr:
  "select_by_accession data S = Inr a \<Longrightarrow> a = select_rows data ''Uniprot Accession'' S"
  by (auto simp: select_by_accession_def and_then_eq_Inr dest!: getitem_Inr)

lemma rows_select:
  "set (rows (select_rows df c S)) = {row \<in> set (rows df). cell_at (snd row) c \<in> S}"
  by (auto simp: select_rows_def)

lemma mouse_proteins_Inr:
  assumes g: "valid_rng g"
    and run: "mouse_proteins g data = Inr (u, tr, v, t)"
  shows "u = column_values (select_rows data ''label'' {Num 1}) ''Uniprot Accession''
       \<and> v \<subseteq> u \<and> t \<subseteq> u - v \<and> tr = u - (t \<union> v)"
  using run
  apply (clarsimp simp: mouse_proteins_def and_then_eq_Inr Let_def
      dest!: getattr_Inr getitem_Inr)
  apply (drule random_sample_subset [OF g])+
  apply auto
  done

lemma mouse_proteins_partition:
  assumes g: "valid_rng g"
    and run: "mouse_proteins g data = Inr (u, tr, v, t)"
    and a: "select_by_accession data tr = Inr a"
    and b: "select_by_accession data v = Inr b"
    and c: "select_by_accession data t = Inr c"
  shows "tr \<inter> v = {} \<and> tr \<inter> t = {} \<and> v \<inter> t = {} \<and> tr \<union> v \<union> t = u
       \<and> u = column_values (select_rows data ''label'' {Num 1}) ''Uniprot Accession''
       \<and> column_values a ''Uniprot Accession'' \<subseteq> tr
       \<and> column_values b ''Uniprot Accession'' \<subseteq> v
       \<and> column_values c ''Uniprot Accession'' \<subseteq> t
       \<and> set (rows a) \<inter> set (rows b) = {}
       \<and> set (rows a) \<inter> set (rows c) = {}
       \<and> set (rows b) \<inter> set (rows c) = {}
       \<and> set (rows a) \<union> set (rows b) \<union> set (rows c)
           = {row \<in> set (rows data). cell_at (snd row) ''Uniprot Accession'' \<in> u}"
proof -
  note p = mouse_proteins_Inr [OF g run]
  have sets: "tr \<inter> v = {}" "tr \<inter> t = {}" "v \<inter> t = {}" "tr \<union> v \<union> t = u"
    using p by auto
  have a': "a = select_rows data ''Uniprot Accession'' tr"
    and b': "b = select_rows data ''Uniprot Accession'' v"
    and c': "c = select_rows data ''Uniprot Accession'' t"
    using a b c by (auto dest: select_by_accession_Inr)
  have cols: "column_values a ''Uniprot Accession'' \<subseteq> tr"
    "column_values b ''Uniprot Accession'' \<subseteq> v"
    "column_values c ''Uniprot Accession'' \<subseteq> t"
    by (simp_all add: a' b' c')
  have rws: "set (rows a) \<inter> set (rows b) = {}" "set (rows a) \<inter> set (rows c) = {}"
    "set (rows b) \<inter> set (rows c) = {}"
    using sets by (auto simp: a' b' c' rows_select)
  have cover: "set (rows a) \<union> set (rows b) \<union> set (rows c)
           = {row \<in> set (rows data). cell_at (snd row) ''Uniprot Accession'' \<in> u}"
    using sets(4) by (auto simp: a' b' c' rows_select)
  show ?thesis using sets p cols rws cover by blast
qed

section \<open>random_splitting_mouse: the pools of negatives\<close>

lemma filter_same_length: "length (filter P xs) = length xs \<Longrightarrow> filter P xs = xs"
  using length_filter_less [of _ xs P] by (fastforce simp: filter_id_conv)

lemma map_of_row_mask:
  assumes "distinct (map fst xs)" and "(l, r) \<in> set xs"
  shows "map_of (map (\<lambda>(l, r). (l, f r)) xs) l = Some (f r)"
proof -
  have "distinct (map fst (map (\<lambda>(l, r). (l, f r)) xs))"
    using assms(1) by (simp add: comp_def case_prod_beta)
  moreover have "(l, f r) \<in> set (map (\<lambda>(l, r). (l, f r)) xs)"
    using assms(2) by force
  ultimately show ?thesis by (rule map_of_is_SomeI)
qed

lemma invert_isin_column:
  "invert (isin (column df c) S) = map (\<lambda>(l, r). (l, cell_at r c \<notin> S)) (rows df)"
  by (simp add: invert_def isin_def column_def case_prod_beta comp_def)

lemma loc_mask_aligned:
  assumes d: "distinct (frame_index data)"
  shows "loc_mask (select_rows data c0 S0) (invert (isin (column data c) S)) =
     Inr ((select_rows data c0 S0)
       \<lparr>rows := filter (\<lambda>(l, r). cell_at r c \<notin> S) (rows (select_rows data c0 S0))\<rparr>)"
proof (cases "frame_index data = frame_index (select_rows data c0 S0)")
  case True
  let ?P = "\<lambda>(l, r). cell_at r c0 \<in> S0"
  from True have "map fst (rows data) = map fst (filter ?P (rows data))"
    by (simp add: frame_index_def select_rows_def)
  then have "length (map fst (rows data)) = length (map fst (filter ?P (rows data)))"
    by (rule arg_cong)
  then have "length (filter ?P (rows data)) = length (rows data)"
    by simp
  then have same: "rows (select_rows data c0 S0) = rows data"
    by (simp add: select_rows_def filter_same_length)
  have idx: "map fst (invert (isin (column data c) S)) = frame_index (select_rows data c0 S0)"
    using True by (simp add: invert_isin_column frame_index_def comp_def case_prod_beta)
  have vals: "map snd (invert (isin (column data c) S))
      = map (\<lambda>(l, r). cell_at r c \<notin> S) (rows data)"
    by (simp add: invert_isin_column comp_def case_prod_beta)
  show ?thesis
    by (simp add: loc_mask_def idx vals same select_zip_map)
next
  case False
  have idx: "map fst (invert (isin (column data c) S)) = frame_index data"
    by (simp add: invert_isin_column frame_index_def comp_def case_prod_beta)
  have sub: "set (frame_index (select_rows data c0 S0)) \<subseteq> set (frame_index data)"
    by (auto simp: frame_index_def select_rows_def)
  have look: "filter (\<lambda>(l, r). map_of (invert (isin (column data c) S)) l = Some True)
        (rows (select_rows data c0 S0))
      = filter (\<lambda>(l, r). cell_at r c \<notin> S) (rows (select_rows data c0 S0))"
  proof (rule filter_cong [OF refl])
    fix x assume x: "x \<in> set (rows (select_rows data c0 S0))"
    obtain l r where lr: "x = (l, r)" by (cases x)
    with x have "(l, r) \<in> set (rows data)" by (auto simp: select_rows_def)
    with d have "map_of (invert (isin (column data c) S)) l = Some (cell_at r c \<notin> S)"
      unfolding invert_isin_column frame_index_def by (rule map_of_row_mask)
    then show "(case x of (l, r) \<Rightarrow> map_of (invert (isin (column data c) S)) l = Some True)
        = (case x of (l, r) \<Rightarrow> cell_at r c \<notin> S)"
      by (simp add: lr)
  qed
  show ?thesis
    using False sub by (simp add: loc_mask_def idx look)
qed

lemma distinct_index_select [simp]:
  "distinct (frame_index df) \<Longrightarrow> distinct (frame_index (select_rows df c S))"
  by (simp add: frame_index_def select_rows_def distinct_map_filter)

lemma distinct_index_filter [simp]:
  "distinct (frame_index df) \<Longrightarrow> distinct (frame_index (df\<lparr>rows := filter P (rows df)\<rparr>))"
  by (simp add: frame_index_def distinct_map_filter)

lemma length_rows_select: "length (rows (select_rows df c S)) \<le> length (rows df)"
  by (simp add: select_rows_def)

lemma length_sample_list:
  "valid_rng g \<Longrightarrow> sample_list g rs xs n = Inr ys \<Longrightarrow> length ys = nat n"
  using permutation_valid [of g rs "length xs"]
  by (auto simp: sample_list_def take_locs_def is_permutation_def
      dest!: distinct_card split: if_splits)

lemma length_sample:
  "valid_rng g \<Longrightarrow> sample g rs df n = Inr s \<Longrightarrow> length (rows s) = nat n"
  by (auto simp: sample_def and_then_eq_Inr dest: length_sample_list)

lemma pool_le:
  "length (rows (select_rows (pool\<lparr>rows := filter F (rows pool)\<rparr>) c0 S0)) \<le> length (rows pool)"
  by (simp add: select_rows_def le_trans [OF length_filter_le length_filter_le]
      del: filter_filter)

lemma pool_less:
  assumes g: "valid_rng g"
    and s: "sample g rs pool k = Inr s"
    and k: "0 < k"
    and F: "\<And>row. row \<in> set (rows s) \<Longrightarrow> \<not> F row"
  shows "length (rows (select_rows (pool\<lparr>rows := filter F (rows pool)\<rparr>) c0 S0))
      < length (rows pool)"
proof -
  from g s have "length (rows s) = nat k" by (rule length_sample)
  with k have "rows s \<noteq> []" by auto
  then obtain row where row: "row \<in> set (rows s)" by (cases "rows s") auto
  with sample_rows [OF g s] have "row \<in> set (rows pool)" by blast
  moreover from row have "\<not> F row" by (rule F)
  ultimately have "length (filter F (rows pool)) < length (rows pool)"
    by (rule length_filter_less)
  moreover have "length (rows (select_rows (pool\<lparr>rows := filter F (rows pool)\<rparr>) c0 S0))
      \<le> length (filter F (rows pool))"
    by (simp add: select_rows_def del: filter_filter)
  ultimately show ?thesis by simp
qed

lemma mouse_negatives_pools:
  assumes g: "valid_rng g"
    and d: "distinct (frame_index data)"
    and run: "mouse_negatives g data a b c = Inr n"
  shows "length (rows (pool_val n)) \<le> length (rows (pool_train n))
       \<and> length (rows (pool_test n)) \<le> length (rows (pool_val n))
       \<and> (rows a \<noteq> [] \<longrightarrow> length (rows (pool_val n)) < length (rows (pool_train n)))
       \<and> (rows b \<noteq> [] \<longrightarrow> length (rows (pool_test n)) < length (rows (pool_val n)))"
  using run d
  apply (clarsimp simp: mouse_negatives_def and_then_eq_Inr loc_mask_aligned
      dest!: getattr_Inr getitem_Inr)
  apply (intro conjI impI pool_le)
   apply (erule pool_less [OF g])
    apply simp
   apply (force simp: column_values_image)
  apply (erule pool_less [OF g])
   apply simp
  apply (force simp: column_values_image)
  done

lemma mouse_table_index: "distinct (frame_index mouse_table)"
  by code_simp

section \<open>label_dist_summary on the example table\<close>

lemma human_table_labels:
  "\<forall>v \<in> set (series_values (column human_table ''target_value'')). v = Num 0 \<or> v = Num 1"
  by code_simp

lemma human_table_summary: "\<not> isl (label_dist_summary human_table ''target_value'' ''training'')"
  by code_simp

theorem label_dist_summary_counts_sum_witness:
  "\<exists>negative positive.
     label_dist_summary human_table ''target_value'' ''training''
       = Inr [LabelDist ''training'' negative positive]
     \<and> negative + positive = length (rows human_table)"
proof -
  obtain out where out: "label_dist_summary human_table ''target_value'' ''training'' = Inr out"
    using not_isl_Inr [OF human_table_summary] by blast
  from label_dist_summary_counts_sum [OF human_table_labels out] out
  show ?thesis by auto
qed

section \<open>Runs of the other routines that return a common peptide\<close>

text \<open>
  The proteins P0 and P1 of the mouse table present the same peptide KV. With the
  identity generator P0 is the validation protein and P1 the test protein, the run
  returns, and KV is a peptide of the validation partition and of the test partition.
\<close>

theorem random_splitting_mouse_shared_peptide:
  "(case random_splitting_mouse identity_rng ''splits'' mouse_table of
      Inl e \<Rightarrow> False
    | Inr r \<Rightarrow>
        (case test_part r of
           None \<Rightarrow> False
         | Some t \<Rightarrow> Str ''KV'' \<in> column_values (val_part r) ''Peptide Sequence''
             \<inter> column_values t ''Peptide Sequence''))"
  by code_simp

text \<open>
  \<open>leventstein\<close> selects the rows of its negatives by peptide over the whole table.
  In the example table the peptide PH has a positive row, of group 6, and a negative
  row. With the identity generator group 6 is the validation group and the negative row
  is drawn for training: the run returns and PH is a peptide of the training partition
  and of the validation partition.
\<close>

theorem leventstein_shared_peptide:
  "(case leventstein identity_rng ''splits'' lev_groups_table lev_table of
      Inl e \<Rightarrow> False
    | Inr r \<Rightarrow> Str ''PH'' \<in> column_values (train_part r) ''peptide''
                   \<inter> column_values (val_part r) ''peptide'')"
  by code_simp

text \<open>
  \<open>motif_exclusion\<close> takes the training peptides of a fold from one file and the
  validation peptides from another and removes nothing. In the example the peptide
  AAA is listed in both files of the first fold: the run returns and AAA is a peptide
  of the training partition and of the validation partition.
\<close>

theorem motif_exclusion_shared_peptide:
  "(case motif_exclusion ''splits'' 1 motif_files motif_table of
      Inr [r] \<Rightarrow> Str ''AAA'' \<in> column_values (train_part r) ''peptide''
                   \<inter> column_values (val_part r) ''peptide''
    | _ \<Rightarrow> False)"
  by code_simp

section \<open>TransformerModel: the three steps\<close>

lemma call_model_one_argument: "call_model net self [batch] = Inl TypeError"
  by (simp add: call_model_def)

lemma evaluate_model_after_init:
  "evaluate_model
     (TransformerModel_init seq_len n_tokens embedding_size n_attn_heads enc_ff_hidden
        ff_hidden n_layers dropout max_len start_learning_rate weight_decay loss_fn metrics)
     y_true y_pred prefix = Inl AttributeError"
  by (simp add: evaluate_model_def TransformerModel_init_def self_getattr_def)

text \<open>
  C9. Each of \<open>training_step\<close>, \<open>validation_step\<close> and \<open>test_step\<close> calls the
  model with the batch as its only argument, and \<open>forward\<close> takes two: for every
  model object and every batch the three steps raise TypeError before any loss is
  computed or any metric logged.
\<close>

theorem steps_raise_TypeError:
  "training_step net y_of self batch batch_idx = Inl TypeError
   \<and> validation_step net y_of self batch batch_idx = Inl TypeError
   \<and> test_step net y_of self batch batch_idx = Inl TypeError"
  by (simp add: training_step_def validation_step_def test_step_def model_step_def
      call_model_def)

section \<open>random_splitting_mouse: what a run returns\<close>

lemma rows_append [simp]: "rows (append_frames a b) = rows a @ rows b"
  by (simp add: append_frames_def)

lemma column_values_append:
  "column_values (append_frames a b) c = column_values a c \<union> column_values b c"
  by (auto simp: column_values_image)

lemma count_of_Inr: "count_of (value_counts s) v = Inr k \<Longrightarrow> v \<in> set (series_values s)"
  by (simp add: count_of_def map_of_value_counts split: if_splits)

lemma label_dist_summary_Inr:
  assumes "label_dist_summary data target_col dataset_name = Inr out"
  shows "Num 0 \<in> column_values data target_col \<and> Num 1 \<in> column_values data target_col"
proof -
  from assms obtain negative positive where
    "count_of (value_counts (column data target_col)) (Num 0) = Inr negative"
    "count_of (value_counts (column data target_col)) (Num 1) = Inr positive"
    by (auto simp: label_dist_summary_def getitem_def Let_def and_then_eq_Inr
        split: if_splits)
  then show ?thesis
    by (auto dest: count_of_Inr)
qed

lemma rows_select_filter_select:
  "rows (select_rows (X\<lparr>rows := filter F (rows (select_rows d c S))\<rparr>) c S)
     = filter F (rows (select_rows d c S))"
  by (simp add: select_rows_def filter_id_conv del: filter_filter)

lemma rows_select_filter_filter_select:
  "rows (select_rows (X\<lparr>rows := filter F (filter G (rows (select_rows d c S)))\<rparr>) c S)
     = filter F (filter G (rows (select_rows d c S)))"
  by (simp add: select_rows_def filter_id_conv del: filter_filter)

lemma mouse_negatives_Inr:
  assumes d: "distinct (frame_index data)"
    and run: "mouse_negatives g data a b c = Inr n"
  shows "pool_train n = select_rows data ''label'' {Num 0}
     \<and> sample g (Unseeded 2) (pool_train n) (int (length (rows a)) * 5) = Inr (train_neg n)
     \<and> rows (pool_val n) =
         filter (\<lambda>(l, r). cell_at r ''Peptide Sequence''
                   \<notin> column_values (train_neg n) ''Peptide Sequence'') (rows (pool_train n))
     \<and> sample g (Unseeded 3) (pool_val n) (int (length (rows b)) * 5) = Inr (val_neg n)
     \<and> rows (pool_test n) =
         filter (\<lambda>(l, r). cell_at r ''Peptide Sequence''
                   \<notin> column_values (val_neg n) ''Peptide Sequence''
                       \<union> column_values (train_neg n) ''Peptide Sequence'') (rows (pool_val n))
     \<and> sample g (Unseeded 4) (pool_test n) (int (length (rows c)) * 5) = Inr (test_neg n)"
  using run d
  apply (clarsimp simp: mouse_negatives_def and_then_eq_Inr loc_mask_aligned
      dest!: getattr_Inr getitem_Inr)
  apply (intro conjI)
   apply (simp_all only: negative_draws.simps rows_select_filter_select
      rows_select_filter_filter_select)
  done


lemma random_splitting_mouse_Inr:
  assumes run: "random_splitting_mouse g SPLITS_DIR data = Inr r"
  shows "\<exists>u tr v t a b c n.
      mouse_proteins g data = Inr (u, tr, v, t)
    \<and> select_by_accession data tr = Inr a
    \<and> select_by_accession data v = Inr b
    \<and> select_by_accession data t = Inr c
    \<and> mouse_negatives g data a b c = Inr n
    \<and> train_part r = append_frames a (train_neg n)
    \<and> val_part r = append_frames b (val_neg n)
    \<and> test_part r = Some (append_frames c (test_neg n))
    \<and> Num 1 \<in> column_values (append_frames a (train_neg n)) ''label''
    \<and> Num 1 \<in> column_values (append_frames b (val_neg n)) ''label''
    \<and> Num 1 \<in> column_values (append_frames c (test_neg n)) ''label''"
  using run
  apply (clarsimp simp: random_splitting_mouse_def and_then_eq_Inr Let_def split: prod.splits)
  apply (drule label_dist_summary_Inr)+
  apply simp
  done

lemma mouse_negatives_labels:
  assumes g: "valid_rng g"
    and run: "mouse_negatives g data a b c = Inr n"
  shows "column_values (train_neg n) ''label'' \<subseteq> {Num 0}
       \<and> column_values (val_neg n) ''label'' \<subseteq> {Num 0}
       \<and> column_values (test_neg n) ''label'' \<subseteq> {Num 0}"
  using run
  apply (clarsimp simp: mouse_negatives_def and_then_eq_Inr dest!: getattr_Inr getitem_Inr)
  apply (drule sample_rows [OF g])+
  apply (drule column_values_in_select)+
  apply simp
  done


lemma column_values_member:
  "row \<in> set (rows df) \<Longrightarrow> cell_at (snd row) c \<in> column_values df c"
  by (auto simp: column_values_image)

lemma column_values_nonempty: "v \<in> column_values df c \<Longrightarrow> rows df \<noteq> []"
  by (auto simp: column_values_image)

text \<open>
  C3. In every run of \<open>random_splitting_mouse\<close> that returns, on a table with unique
  row labels, the pool of negatives shrinks strictly with each draw. The training
  negatives are five per row of the training group, drawn from the rows with label 0;
  the pool of the validation draw is that pool without every row whose peptide was
  drawn, and it is strictly smaller; the validation negatives are five per row of the
  validation group, drawn from it; the pool of the test draw is the validation pool
  without every row whose peptide was drawn so far, and it is strictly smaller again.
\<close>

theorem random_splitting_mouse_pools_shrink:
  assumes g: "valid_rng g"
    and d: "distinct (frame_index data)"
    and run: "random_splitting_mouse g SPLITS_DIR data = Inr r"
  shows "\<exists>u tr v t a b c n.
      mouse_proteins g data = Inr (u, tr, v, t)
    \<and> select_by_accession data tr = Inr a
    \<and> select_by_accession data v = Inr b
    \<and> select_by_accession data t = Inr c
    \<and> mouse_negatives g data a b c = Inr n
    \<and> train_part r = append_frames a (train_neg n)
    \<and> val_part r = append_frames b (val_neg n)
    \<and> test_part r = Some (append_frames c (test_neg n))
    \<and> pool_train n = select_rows data ''label'' {Num 0}
    \<and> set (rows (train_neg n)) \<subseteq> set (rows (pool_train n))
    \<and> length (rows (train_neg n)) = 5 * length (rows a)
    \<and> rows (pool_val n) =
         filter (\<lambda>(l, r). cell_at r ''Peptide Sequence''
                   \<notin> column_values (train_neg n) ''Peptide Sequence'') (rows (pool_train n))
    \<and> set (rows (val_neg n)) \<subseteq> set (rows (pool_val n))
    \<and> length (rows (val_neg n)) = 5 * length (rows b)
    \<and> rows (pool_test n) =
         filter (\<lambda>(l, r). cell_at r ''Peptide Sequence''
                   \<notin> column_values (val_neg n) ''Peptide Sequence''
                       \<union> column_values (train_neg n) ''Peptide Sequence'') (rows (pool_val n))
    \<and> set (rows (test_neg n)) \<subseteq> set (rows (pool_test n))
    \<and> length (rows (test_neg n)) = 5 * length (rows c)
    \<and> length (rows (pool_val n)) < length (rows (pool_train n))
    \<and> length (rows (pool_test n)) < length (rows (pool_val n))"
proof -
  from random_splitting_mouse_Inr [OF run] obtain u tr v t a b c n where
    p: "mouse_proteins g data = Inr (u, tr, v, t)"
    and a: "select_by_accession data tr = Inr a"
    and b: "select_by_accession data v = Inr b"
    and c: "select_by_accession data t = Inr c"
    and n: "mouse_negatives g data a b c = Inr n"
    and parts: "train_part r = append_frames a (train_neg n)"
      "val_part r = append_frames b (val_neg n)"
      "test_part r = Some (append_frames c (test_neg n))"
    and pos: "Num 1 \<in> column_values (append_frames a (train_neg n)) ''label''"
      "Num 1 \<in> column_values (append_frames b (val_neg n)) ''label''"
    by blast
  note N = mouse_negatives_Inr [OF d n]
  note L = mouse_negatives_labels [OF g n]
  have s1: "sample g (Unseeded 2) (pool_train n) (int (length (rows a)) * 5) = Inr (train_neg n)"
    and s2: "sample g (Unseeded 3) (pool_val n) (int (length (rows b)) * 5) = Inr (val_neg n)"
    and s3: "sample g (Unseeded 4) (pool_test n) (int (length (rows c)) * 5) = Inr (test_neg n)"
    using N by blast+
  have sub: "set (rows (train_neg n)) \<subseteq> set (rows (pool_train n))"
    "set (rows (val_neg n)) \<subseteq> set (rows (pool_val n))"
    "set (rows (test_neg n)) \<subseteq> set (rows (pool_test n))"
    using sample_rows [OF g s1] sample_rows [OF g s2] sample_rows [OF g s3] by simp_all
  have len: "length (rows (train_neg n)) = 5 * length (rows a)"
    "length (rows (val_neg n)) = 5 * length (rows b)"
    "length (rows (test_neg n)) = 5 * length (rows c)"
    using length_sample [OF g s1] length_sample [OF g s2] length_sample [OF g s3]
    by (simp_all add: nat_mult_distrib)
  have "Num 1 \<in> column_values a ''label''" "Num 1 \<in> column_values b ''label''"
    using pos L by (auto simp: column_values_append)
  then have ne: "rows a \<noteq> []" "rows b \<noteq> []"
    by (auto dest: column_values_nonempty)
  have strict: "length (rows (pool_val n)) < length (rows (pool_train n))"
    "length (rows (pool_test n)) < length (rows (pool_val n))"
    using mouse_negatives_pools [OF g d n] ne by simp_all
  have "mouse_proteins g data = Inr (u, tr, v, t)
    \<and> select_by_accession data tr = Inr a
    \<and> select_by_accession data v = Inr b
    \<and> select_by_accession data t = Inr c
    \<and> mouse_negatives g data a b c = Inr n
    \<and> train_part r = append_frames a (train_neg n)
    \<and> val_part r = append_frames b (val_neg n)
    \<and> test_part r = Some (append_frames c (test_neg n))
    \<and> pool_train n = select_rows data ''label'' {Num 0}
    \<and> set (rows (train_neg n)) \<subseteq> set (rows (pool_train n))
    \<and> length (rows (train_neg n)) = 5 * length (rows a)
    \<and> rows (pool_val n) =
         filter (\<lambda>(l, r). cell_at r ''Peptide Sequence''
                   \<notin> column_values (train_neg n) ''Peptide Sequence'') (rows (pool_train n))
    \<and> set (rows (val_neg n)) \<subseteq> set (rows (pool_val n))
    \<and> length (rows (val_neg n)) = 5 * length (rows b)
    \<and> rows (pool_test n) =
         filter (\<lambda>(l, r). cell_at r ''Peptide Sequence''
                   \<notin> column_values (val_neg n) ''Peptide Sequence''
                       \<union> column_values (train_neg n) ''Peptide Sequence'') (rows (pool_val n))
    \<and> set (rows (test_neg n)) \<subseteq> set (rows (pool_test n))
    \<and> length (rows (test_neg n)) = 5 * length (rows c)
    \<and> length (rows (pool_val n)) < length (rows (pool_train n))
    \<and> length (rows (pool_test n)) < length (rows (pool_val n))"
    using p a b c n parts N sub len strict by blast
  then show ?thesis
    by (intro exI)
qed

text \<open>
  C6, as amended. In every run of \<open>random_splitting_mouse\<close> that returns, the
  training, validation and test sets of protein accessions are pairwise disjoint and
  together are the accessions of the rows with label 1, and the rows selected by
  accession carry accessions of their own set only. Each returned partition is such a
  selection followed by its negatives, rows with label 0 that are drawn whatever their
  accession. So a row with label 1 is in a partition exactly when its protein is in
  the set of that partition, hence in exactly one partition; a row with label 0 is not
  bound to the partition of its protein.
\<close>

theorem random_splitting_mouse_positive_rows:
  assumes g: "valid_rng g"
    and run: "random_splitting_mouse g SPLITS_DIR data = Inr r"
  shows "\<exists>u tr v t a b c na nb nc.
      mouse_proteins g data = Inr (u, tr, v, t)
    \<and> u = column_values (select_rows data ''label'' {Num 1}) ''Uniprot Accession''
    \<and> tr \<inter> v = {} \<and> tr \<inter> t = {} \<and> v \<inter> t = {} \<and> tr \<union> v \<union> t = u
    \<and> select_by_accession data tr = Inr a
    \<and> select_by_accession data v = Inr b
    \<and> select_by_accession data t = Inr c
    \<and> column_values a ''Uniprot Accession'' \<subseteq> tr
    \<and> column_values b ''Uniprot Accession'' \<subseteq> v
    \<and> column_values c ''Uniprot Accession'' \<subseteq> t
    \<and> train_part r = append_frames a na
    \<and> val_part r = append_frames b nb
    \<and> test_part r = Some (append_frames c nc)
    \<and> column_values na ''label'' \<subseteq> {Num 0}
    \<and> column_values nb ''label'' \<subseteq> {Num 0}
    \<and> column_values nc ''label'' \<subseteq> {Num 0}
    \<and> (\<forall>row \<in> set (rows data). cell_at (snd row) ''label'' = Num 1 \<longrightarrow>
          (row \<in> set (rows (train_part r)) \<longleftrightarrow> cell_at (snd row) ''Uniprot Accession'' \<in> tr)
        \<and> (row \<in> set (rows (val_part r)) \<longleftrightarrow> cell_at (snd row) ''Uniprot Accession'' \<in> v)
        \<and> (row \<in> set (rows (append_frames c nc))
              \<longleftrightarrow> cell_at (snd row) ''Uniprot Accession'' \<in> t))"
proof -
  from random_splitting_mouse_Inr [OF run] obtain u tr v t a b c n where
    p: "mouse_proteins g data = Inr (u, tr, v, t)"
    and a: "select_by_accession data tr = Inr a"
    and b: "select_by_accession data v = Inr b"
    and c: "select_by_accession data t = Inr c"
    and n: "mouse_negatives g data a b c = Inr n"
    and parts: "train_part r = append_frames a (train_neg n)"
      "val_part r = append_frames b (val_neg n)"
      "test_part r = Some (append_frames c (test_neg n))"
    by blast
  note P = mouse_proteins_partition [OF g p a b c]
  note L = mouse_negatives_labels [OF g n]
  have a': "a = select_rows data ''Uniprot Accession'' tr"
    and b': "b = select_rows data ''Uniprot Accession'' v"
    and c': "c = select_rows data ''Uniprot Accession'' t"
    using a b c by (auto dest: select_by_accession_Inr)
  have neg: "\<And>row. cell_at (snd row) ''label'' = Num 1 \<Longrightarrow>
      row \<notin> set (rows (train_neg n)) \<and> row \<notin> set (rows (val_neg n))
      \<and> row \<notin> set (rows (test_neg n))"
    using L by (auto dest!: column_values_member [where c = "''label''"])
  have rows: "\<forall>row \<in> set (rows data). cell_at (snd row) ''label'' = Num 1 \<longrightarrow>
          (row \<in> set (rows (train_part r)) \<longleftrightarrow> cell_at (snd row) ''Uniprot Accession'' \<in> tr)
        \<and> (row \<in> set (rows (val_part r)) \<longleftrightarrow> cell_at (snd row) ''Uniprot Accession'' \<in> v)
        \<and> (row \<in> set (rows (append_frames c (test_neg n)))
              \<longleftrightarrow> cell_at (snd row) ''Uniprot Accession'' \<in> t)"
    using neg by (auto simp: parts a' b' c' rows_select)
  have "mouse_proteins g data = Inr (u, tr, v, t)
    \<and> u = column_values (select_rows data ''label'' {Num 1}) ''Uniprot Accession''
    \<and> tr \<inter> v = {} \<and> tr \<inter> t = {} \<and> v \<inter> t = {} \<and> tr \<union> v \<union> t = u
    \<and> select_by_accession data tr = Inr a
    \<and> select_by_accession data v = Inr b
    \<and> select_by_accession data t = Inr c
    \<and> column_values a ''Uniprot Accession'' \<subseteq> tr
    \<and> column_values b ''Uniprot Accession'' \<subseteq> v
    \<and> column_values c ''Uniprot Accession'' \<subseteq> t
    \<and> train_part r = append_frames a (train_neg n)
    \<and> val_part r = append_frames b (val_neg n)
    \<and> test_part r = Some (append_frames c (test_neg n))
    \<and> column_values (train_neg n) ''label'' \<subseteq> {Num 0}
    \<and> column_values (val_neg n) ''label'' \<subseteq> {Num 0}
    \<and> column_values (test_neg n) ''label'' \<subseteq> {Num 0}
    \<and> (\<forall>row \<in> set (rows data). cell_at (snd row) ''label'' = Num 1 \<longrightarrow>
          (row \<in> set (rows (train_part r)) \<longleftrightarrow> cell_at (snd row) ''Uniprot Accession'' \<in> tr)
        \<and> (row \<in> set (rows (val_part r)) \<longleftrightarrow> cell_at (snd row) ''Uniprot Accession'' \<in> v)
        \<and> (row \<in> set (rows (append_frames c (test_neg n)))
              \<longleftrightarrow> cell_at (snd row) ''Uniprot Accession'' \<in> t))"
    using p P a b c parts L rows by blast
  then show ?thesis
    by (intro exI)
qed

lemma mouse_table_run: "\<not> isl (random_splitting_mouse identity_rng ''splits'' mouse_table)"
  by code_simp

theorem random_splitting_mouse_pools_shrink_witness:
  "\<exists>r u tr v t a b c n.
      random_splitting_mouse identity_rng ''splits'' mouse_table = Inr r
    \<and> mouse_proteins identity_rng mouse_table = Inr (u, tr, v, t)
    \<and> select_by_accession mouse_table tr = Inr a
    \<and> select_by_accession mouse_table v = Inr b
    \<and> select_by_accession mouse_table t = Inr c
    \<and> mouse_negatives identity_rng mouse_table a b c = Inr n
    \<and> length (rows (pool_val n)) < length (rows (pool_train n))
    \<and> length (rows (pool_test n)) < length (rows (pool_val n))"
proof -
  obtain r where r: "random_splitting_mouse identity_rng ''splits'' mouse_table = Inr r"
    using not_isl_Inr [OF mouse_table_run] by blast
  from random_splitting_mouse_pools_shrink [OF valid_identity_rng mouse_table_index r]
  obtain u tr v t a b c n where
    "mouse_proteins identity_rng mouse_table = Inr (u, tr, v, t)"
    "select_by_accession mouse_table tr = Inr a"
    "select_by_accession mouse_table v = Inr b"
    "select_by_accession mouse_table t = Inr c"
    "mouse_negatives identity_rng mouse_table a b c = Inr n"
    "length (rows (pool_val n)) < length (rows (pool_train n))"
    "length (rows (pool_test n)) < length (rows (pool_val n))"
    by blast
  with r show ?thesis by blast
qed

theorem random_splitting_mouse_positive_rows_witness:
  "\<exists>r u tr v t p.
      random_splitting_mouse identity_rng ''splits'' mouse_table = Inr r
    \<and> mouse_proteins identity_rng mouse_table = Inr (u, tr, v, t)
    \<and> test_part r = Some p
    \<and> tr \<inter> v = {} \<and> tr \<inter> t = {} \<and> v \<inter> t = {} \<and> tr \<union> v \<union> t = u
    \<and> (mouse_row 0 1 ''P0'' ''KV'' \<in> set (rows (val_part r))
          \<longleftrightarrow> Str ''P0'' \<in> v)
    \<and> (mouse_row 0 1 ''P0'' ''KV'' \<in> set (rows (train_part r))
          \<longleftrightarrow> Str ''P0'' \<in> tr)
    \<and> (mouse_row 0 1 ''P0'' ''KV'' \<in> set (rows p)
          \<longleftrightarrow> Str ''P0'' \<in> t)"
proof -
  obtain r where r: "random_splitting_mouse identity_rng ''splits'' mouse_table = Inr r"
    using not_isl_Inr [OF mouse_table_run] by blast
  have row: "mouse_row 0 1 ''P0'' ''KV'' \<in> set (rows mouse_table)"
    by (simp add: mouse_table_def)
  have cells: "cell_at (snd (mouse_row 0 1 ''P0'' ''KV'')) ''label'' = Num 1"
    "cell_at (snd (mouse_row 0 1 ''P0'' ''KV'')) ''Uniprot Accession'' = Str ''P0''"
    by (simp_all add: mouse_row_def cell_at_def)
  from random_splitting_mouse_positive_rows [OF valid_identity_rng r]
  obtain u tr v t a b c na nb nc where
    f: "mouse_proteins identity_rng mouse_table = Inr (u, tr, v, t)"
    "tr \<inter> v = {}" "tr \<inter> t = {}" "v \<inter> t = {}" "tr \<union> v \<union> t = u"
    "test_part r = Some (append_frames c nc)"
    and all: "\<forall>row \<in> set (rows mouse_table). cell_at (snd row) ''label'' = Num 1 \<longrightarrow>
          (row \<in> set (rows (train_part r)) \<longleftrightarrow> cell_at (snd row) ''Uniprot Accession'' \<in> tr)
        \<and> (row \<in> set (rows (val_part r)) \<longleftrightarrow> cell_at (snd row) ''Uniprot Accession'' \<in> v)
        \<and> (row \<in> set (rows (append_frames c nc))
              \<longleftrightarrow> cell_at (snd row) ''Uniprot Accession'' \<in> t)"
    by blast
  from all row cells have
    "(mouse_row 0 1 ''P0'' ''KV'' \<in> set (rows (val_part r))) = (Str ''P0'' \<in> v)"
    "(mouse_row 0 1 ''P0'' ''KV'' \<in> set (rows (train_part r))) = (Str ''P0'' \<in> tr)"
    "(mouse_row 0 1 ''P0'' ''KV'' \<in> set (rows (append_frames c nc))) = (Str ''P0'' \<in> t)"
    by (metis (no_types))+
  with r f show ?thesis by blast
qed

text \<open>
  In the second mouse table row 60 has label 0 and the accession P0. With the identity
  generator P0 is the validation protein, so the row is selected for the validation
  partition, and the row is among the five negatives drawn for the test partition: the
  run returns and protein P0 has a row in two partitions.
\<close>

theorem random_splitting_mouse_negative_row_twice:
  "(case random_splitting_mouse identity_rng ''splits'' shared_mouse_table of
      Inl e \<Rightarrow> False
    | Inr r \<Rightarrow>
        (case test_part r of
           None \<Rightarrow> False
         | Some t \<Rightarrow> mouse_row 60 0 ''P0'' ''GA'' \<in> set (rows (val_part r))
             \<and> mouse_row 60 0 ''P0'' ''GA'' \<in> set (rows t)
             \<and> Str ''P0'' \<in> column_values (val_part r) ''Uniprot Accession''
                 \<inter> column_values t ''Uniprot Accession''))"
  by code_simp

section \<open>The errors of the splitting routines\<close>





























end
